theory Spec2Isabelle
  imports Complex_Main "HOL-Library.Sublist" "HOL-Library.AList"
begin

section \<open>Values of the program\<close>

text \<open>
  Python exceptions that the modelled paths of \<open>electricity.py\<close> can raise. A function that
  can raise returns \<open>error + 'a\<close>, with \<open>Inl\<close> for the exception.
\<close>

datatype error =
  KeyError | IndexError | TypeError | ZeroDivisionError | ValueError
  | NoResults | MultipleResults

text \<open>
  Floating-point numbers are idealised: a finite float is a real number (no rounding, no
  signed zero), and the values that leave the reals are kept as such: the two infinities
  (\<open>Infty True\<close> is the positive one) and \<open>NaN\<close>. The operations follow IEEE 754 on these.
\<close>

datatype pyfloat = Fin real | Infty bool | NaN

fun fmul :: "pyfloat \<Rightarrow> pyfloat \<Rightarrow> pyfloat" where
  "fmul (Fin a) (Fin b) = Fin (a * b)"
| "fmul (Fin a) (Infty s) = (if a = 0 then NaN else Infty (s = (0 < a)))"
| "fmul (Infty s) (Fin b) = (if b = 0 then NaN else Infty (s = (0 < b)))"
| "fmul (Infty s) (Infty t) = Infty (s = t)"
| "fmul NaN _ = NaN"
| "fmul _ NaN = NaN"

fun fdiv :: "pyfloat \<Rightarrow> pyfloat \<Rightarrow> pyfloat" where
  "fdiv (Fin a) (Fin b) =
     (if b \<noteq> 0 then Fin (a / b) else if a = 0 then NaN else Infty (0 < a))"
| "fdiv (Fin a) (Infty s) = Fin 0"
| "fdiv (Infty s) (Fin b) = Infty (s = (0 \<le> b))"
| "fdiv (Infty s) (Infty t) = NaN"
| "fdiv NaN _ = NaN"
| "fdiv _ NaN = NaN"

fun fadd :: "pyfloat \<Rightarrow> pyfloat \<Rightarrow> pyfloat" where
  "fadd (Fin a) (Fin b) = Fin (a + b)"
| "fadd (Fin a) (Infty s) = Infty s"
| "fadd (Infty s) (Fin b) = Infty s"
| "fadd (Infty s) (Infty t) = (if s = t then Infty s else NaN)"
| "fadd NaN _ = NaN"
| "fadd _ NaN = NaN"

fun fneg :: "pyfloat \<Rightarrow> pyfloat" where
  "fneg (Fin a) = Fin (- a)"
| "fneg (Infty s) = Infty (\<not> s)"
| "fneg NaN = NaN"

definition fsub :: "pyfloat \<Rightarrow> pyfloat \<Rightarrow> pyfloat" where
  "fsub a b = fadd a (fneg b)"

text \<open>\<open>np.sum\<close> of a list of numbers, starting from 0.\<close>

fun fsum :: "pyfloat list \<Rightarrow> pyfloat" where
  "fsum [] = Fin 0"
| "fsum (x # xs) = fadd x (fsum xs)"

text \<open>Python's \<open>sub in s\<close> on strings: \<open>sub\<close> occurs in \<open>s\<close> as a contiguous block.\<close>

fun contains_str :: "string \<Rightarrow> string \<Rightarrow> bool" where
  "contains_str sub [] = (sub = [])"
| "contains_str sub (c # cs) = (prefix sub (c # cs) \<or> contains_str sub cs)"

section \<open>Inventory records and exchanges\<close>

text \<open>
  An exchange is a Python dict. The keys every exchange of the modelled paths carries are
  fields; the keys that only some exchanges carry (\<open>product\<close> and \<open>location\<close> are absent
  from biosphere exchanges, \<open>input\<close> and \<open>categories\<close> from the others) are optional, and
  reading an absent one by \<open>exc[key]\<close> raises \<open>KeyError\<close>. \<open>exc_uncertainty\<close> holds the
  remaining uncertainty keys (scale, shape, minimum, maximum) when present.
\<close>

record exchange =
  exc_uncertainty_type :: int
  exc_uncertainty :: "(string \<times> pyfloat) list"
  exc_loc :: pyfloat
  exc_amount :: pyfloat
  exc_type :: string
  exc_production_volume :: "pyfloat option"
  exc_product :: "string option"
  exc_name :: string
  exc_unit :: string
  exc_location :: "string option"
  exc_input :: "(string \<times> string) option"
  exc_categories :: "string list option"

text \<open>
  A dataset (inventory record). \<open>ds_parameters\<close> is \<open>None\<close> when the dict has no
  \<open>parameters\<close> key, otherwise the parameter dict in insertion order.
\<close>

record dataset =
  ds_location :: string
  ds_name :: string
  ds_reference_product :: string
  ds_unit :: string
  ds_database :: string
  ds_code :: string
  ds_comment :: string
  ds_exchanges :: "exchange list"
  ds_parameters :: "(string \<times> pyfloat) list option"

text \<open>
  A key of the geomatcher: a plain string (an inventory location) or a tuple
  \<open>(namespace, name)\<close>, as \<open>('REMIND', 'EUR')\<close>.
\<close>

datatype geo_key = Plain string | Tagged string string

text \<open>What the program prints (\<open>print\<close> calls of the modelled paths), as events.\<close>

datatype diag =
  CantFindLocation string
  | NoLocFor string
  | NanEmission "pyfloat list" string string

text \<open>
  The fields of \<open>self\<close> that the modelled methods read. The external collaborators enter
  as functions:
  \<^item> \<open>geo_intersects r\<close> is \<open>self.geo.intersects(('REMIND', r))\<close> and \<open>geo_within l\<close> is
    \<open>self.geo.within(l)\<close>, \<open>None\<close> when the geomatcher raises \<open>KeyError\<close>;
  \<^item> \<open>regions\<close> and \<open>variables\<close> are the coordinates \<open>region\<close> and \<open>variable\<close> of
    \<open>self.rmd.electricity_markets\<close>, and \<open>electricity_markets t r\<close> is
    \<open>self.rmd.electricity_markets.loc[t, r, 0]\<close>;
  \<^item> \<open>population\<close> is the population dict with its values already read by \<open>int\<close>;
  \<^item> \<open>fuels_lhv\<close> is the dict of lower heating values in insertion order, its values
    already read by \<open>float\<close>;
  \<^item> \<open>emissions_lookup regs p s\<close> is
    \<open>self.rmd.electricity_emissions.loc[dict(region=regs, pollutant=p, sector=s)].values\<close>,
    one value per region, where \<open>regs\<close> is what \<open>ecoinvent_to_remind_location\<close> returned
    (\<open>None\<close> for Python's \<open>None\<close>), and \<open>Inl\<close> when the lookup raises;
  \<^item> \<open>uuid n\<close> is the identifier drawn for the dataset appended at position \<open>n\<close>;
  \<^item> \<open>remove_uncertainty_default\<close> is the value that \<open>wurst.rescale_exchange\<close> gives
    its argument \<open>remove_uncertainty\<close> when the caller leaves it out.
\<close>

record env =
  scenario :: string
  year :: string
  geo_intersects :: "string \<Rightarrow> geo_key list option"
  geo_within :: "string \<Rightarrow> geo_key list option"
  population :: "string \<Rightarrow> int option"
  regions :: "string list"
  variables :: "string list"
  electricity_markets :: "string \<Rightarrow> string \<Rightarrow> pyfloat"
  rev_electricity_market_labels :: "string \<Rightarrow> string option"
  powerplant_map :: "string \<Rightarrow> string list option"
  emissions_map :: "(string \<times> string) list"
  electricity_emission_labels :: "string \<Rightarrow> string option"
  emissions_lookup :: "string list option \<Rightarrow> string \<Rightarrow> string \<Rightarrow> error + pyfloat list"
  fuels_lhv :: "(string \<times> real) list"
  uuid :: "nat \<Rightarrow> string"
  remove_uncertainty_default :: bool

section \<open>Region Correspondence Resolver\<close>

text \<open>
  What \<open>remind_to_ecoinvent_location\<close> returns: a list of locations, the string \<open>"GLO"\<close>
  (for the region World), or \<open>None\<close> (after the \<open>KeyError\<close> of the geomatcher was caught
  and reported).
\<close>

datatype py_locs = LocList "string list" | LocStr string | LocNone

fun plain_keys :: "geo_key list \<Rightarrow> string list" where
  "plain_keys [] = []"
| "plain_keys (Plain s # ks) = s # plain_keys ks"
| "plain_keys (Tagged a b # ks) = plain_keys ks"

definition remind_to_ecoinvent_location :: "env \<Rightarrow> string \<Rightarrow> diag list \<times> py_locs" where
  "remind_to_ecoinvent_location e location =
     (if location \<noteq> ''World'' then
        (case geo_intersects e location of
           Some rs \<Rightarrow> ([], LocList (plain_keys rs))
         | None \<Rightarrow> ([CantFindLocation location], LocNone))
      else ([], LocStr ''GLO''))"

text \<open>
  The list comprehension
  \<open>[r[1] for r in self.geo.within(location) if r[0] == 'REMIND' and r[1] != 'World']\<close>.
  For a plain string key \<open>r[0]\<close> is its first character, which never equals \<open>'REMIND'\<close>
  (an empty key raises \<open>IndexError\<close>).
\<close>

fun remind_regions :: "geo_key list \<Rightarrow> error + string list" where
  "remind_regions [] = Inr []"
| "remind_regions (Plain s # ks) =
     (if s = [] then Inl IndexError else remind_regions ks)"
| "remind_regions (Tagged a b # ks) =
     (case remind_regions ks of
        Inl x \<Rightarrow> Inl x
      | Inr rs \<Rightarrow> Inr (if a = ''REMIND'' \<and> b \<noteq> ''World'' then b # rs else rs))"

text \<open>
  One rule of the priority table: when both \<open>a\<close> and \<open>b\<close> are present, \<open>a\<close> is removed
  (\<open>list.remove\<close> takes out the first occurrence).
\<close>

definition drop_if_both :: "string \<Rightarrow> string \<Rightarrow> string list \<Rightarrow> string list" where
  "drop_if_both a b l = (if a \<in> set l \<and> b \<in> set l then remove1 a l else l)"

definition priority_table :: "string list \<Rightarrow> string list" where
  "priority_table l =
     drop_if_both ''OAS'' ''EUR''
    (drop_if_both ''OAS'' ''REF''
    (drop_if_both ''OAS'' ''MEA''
    (drop_if_both ''AFR'' ''MEA''
    (drop_if_both ''OAS'' ''CHA''
    (drop_if_both ''USA'' ''CAZ''
    (drop_if_both ''AFR'' ''SSA''
    (drop_if_both ''OAS'' ''JPN''
    (drop_if_both ''OAS'' ''IND''
    (drop_if_both ''EUR'' ''REF''
    (drop_if_both ''EUR'' ''NEU'' l))))))))))"

text \<open>
  \<open>ecoinvent_to_remind_location\<close>: the printed diagnostics and the returned value, where
  \<open>None\<close> is Python's \<open>None\<close> (the function ends without a \<open>return\<close>).
\<close>

definition ecoinvent_to_remind_location ::
  "env \<Rightarrow> string \<Rightarrow> error + (diag list \<times> string list option)" where
  "ecoinvent_to_remind_location e location =
     (if location = ''GLO'' then Inr ([], Some [''World''])
      else if location = ''RoW'' then Inr ([], Some [''CAZ''])
      else if location = ''IAI Area, Russia & RER w/o EU27 & EFTA'' then Inr ([], Some [''REF''])
      else
        (case geo_within e location of
           None \<Rightarrow> Inl KeyError
         | Some ks \<Rightarrow>
            (case remind_regions ks of
               Inl x \<Rightarrow> Inl x
             | Inr remind_location \<Rightarrow>
                 if length remind_location > 1 then Inr ([], Some (priority_table remind_location))
                 else if length remind_location = 0 then Inr ([NoLocFor location], None)
                 else Inr ([], Some remind_location))))"

section \<open>Supplier Resolution Engine\<close>

text \<open>
  Iterating over the value given as \<open>ecoinvent_regions\<close>: a list gives its elements, a
  string its characters (each a string of length one), \<open>None\<close> raises \<open>TypeError\<close>.
\<close>

fun iter_locs :: "py_locs \<Rightarrow> error + string list" where
  "iter_locs (LocList ls) = Inr ls"
| "iter_locs (LocStr s) = Inr (map (\<lambda>c. [c]) s)"
| "iter_locs LocNone = Inl TypeError"

text \<open>
  \<open>ws.get_many\<close> with the three filters of \<open>get_suppliers_of_a_region\<close>, read into a list:
  the name is one of the technologies, the location one of the locations, the unit is
  \<open>'kilowatt hour'\<close>; the records come in database order.
\<close>

definition suppliers_at :: "dataset list \<Rightarrow> string list \<Rightarrow> string list \<Rightarrow> dataset list" where
  "suppliers_at db locs techs =
     filter (\<lambda>ds. ds_unit ds = ''kilowatt hour'')
       (filter (\<lambda>ds. \<exists>loc \<in> set locs. ds_location ds = loc)
         (filter (\<lambda>ds. \<exists>supplier \<in> set techs. ds_name ds = supplier) db))"

definition get_suppliers_of_a_region ::
  "dataset list \<Rightarrow> py_locs \<Rightarrow> string list \<Rightarrow> error + dataset list" where
  "get_suppliers_of_a_region db ecoinvent_regions ecoinvent_technologies =
     (case iter_locs ecoinvent_regions of
        Inl x \<Rightarrow> Inl x
      | Inr locs \<Rightarrow> Inr (suppliers_at db locs ecoinvent_technologies))"

text \<open>
  The cascade written out in both market builders: the region's locations, then
  \<open>['RER']\<close>, then \<open>['RoW']\<close>.
\<close>

definition resolve_suppliers ::
  "dataset list \<Rightarrow> py_locs \<Rightarrow> string list \<Rightarrow> error + dataset list" where
  "resolve_suppliers db ecoinvent_regions ecoinvent_technologies =
     (case get_suppliers_of_a_region db ecoinvent_regions ecoinvent_technologies of
        Inl x \<Rightarrow> Inl x
      | Inr s1 \<Rightarrow>
          (let s2 = (if length s1 = 0
                     then suppliers_at db [''RER''] ecoinvent_technologies else s1);
               s3 = (if length s2 = 0
                     then suppliers_at db [''RoW''] ecoinvent_technologies else s2)
           in Inr s3))"

section \<open>Population-Weighted Allocator\<close>

definition pop_of :: "env \<Rightarrow> string \<Rightarrow> int" where
  "pop_of e l = (case population e l of Some p \<Rightarrow> p | None \<Rightarrow> 0)"

definition locs_population :: "env \<Rightarrow> dataset list \<Rightarrow> int" where
  "locs_population e suppliers = sum_list (map (\<lambda>loc. pop_of e (ds_location loc)) suppliers)"

text \<open>Python's \<open>/\<close> on two ints: true division, \<open>ZeroDivisionError\<close> on a zero divisor.\<close>

definition get_pop_weighted_share :: "env \<Rightarrow> dataset \<Rightarrow> dataset list \<Rightarrow> error + real" where
  "get_pop_weighted_share e supplier suppliers =
     (let loc_population = pop_of e (ds_location supplier)
      in if locs_population e suppliers = 0 then Inl ZeroDivisionError
         else Inr (real_of_int loc_population / real_of_int (locs_population e suppliers)))"

section \<open>Market Composer\<close>

definition kwh :: string where
  "kwh = ''kilowatt hour''"

definition market_name :: "env \<Rightarrow> string \<Rightarrow> string" where
  "market_name e tier =
     ''market group for electricity, '' @ tier @ '' voltage, '' @ scenario e @ '', '' @ year e"

text \<open>
  The dict literal of a production or technosphere exchange: type, amount (also written to
  \<open>loc\<close>), product, name, unit, location; \<open>uncertainty type\<close> and \<open>production volume\<close> are 0.
\<close>

definition flow_exchange ::
  "string \<Rightarrow> pyfloat \<Rightarrow> string \<Rightarrow> string \<Rightarrow> string \<Rightarrow> string \<Rightarrow> exchange" where
  "flow_exchange ty a pr nm un lc =
     \<lparr>exc_uncertainty_type = 0, exc_uncertainty = [], exc_loc = a, exc_amount = a,
      exc_type = ty, exc_production_volume = Some (Fin 0), exc_product = Some pr,
      exc_name = nm, exc_unit = un, exc_location = Some lc,
      exc_input = None, exc_categories = None\<rparr>"

text \<open>The dict literal of the sulfur hexafluoride emission.\<close>

definition sf6_emission :: "pyfloat \<Rightarrow> exchange" where
  "sf6_emission a =
     \<lparr>exc_uncertainty_type = 0, exc_uncertainty = [], exc_loc = a, exc_amount = a,
      exc_type = ''biosphere'', exc_production_volume = None, exc_product = None,
      exc_name = ''Sulfur hexafluoride'', exc_unit = ''kilogram'', exc_location = None,
      exc_input = Some (''biosphere3'', ''35d1dff5-b535-4628-9826-4a8fce08a1f2''),
      exc_categories = Some [''air'', ''non-urban air or from high stacks'']\<rparr>"

definition sf6_input :: "pyfloat \<Rightarrow> exchange" where
  "sf6_input a =
     flow_exchange ''technosphere'' a ''sulfur hexafluoride, liquid''
       ''market for sulfur hexafluoride, liquid'' ''kilogram'' ''RoW''"

definition production_exchange :: "env \<Rightarrow> string \<Rightarrow> string \<Rightarrow> exchange" where
  "production_exchange e tier region =
     flow_exchange ''production'' (Fin 1) (''electricity, '' @ tier @ '' voltage'')
       (market_name e tier) kwh region"

definition supplier_exchange :: "dataset \<Rightarrow> pyfloat \<Rightarrow> exchange" where
  "supplier_exchange supplier a =
     flow_exchange ''technosphere'' a (ds_reference_product supplier) (ds_name supplier)
       (ds_unit supplier) (ds_location supplier)"

text \<open>
  The loop \<open>for supplier in suppliers\<close>: one exchange per supplier, of amount
  \<open>amount * share\<close>. The first argument is the whole supplier list, the last the suppliers
  still to visit.
\<close>

fun supplier_loop ::
  "env \<Rightarrow> pyfloat \<Rightarrow> dataset list \<Rightarrow> dataset list \<Rightarrow> error + exchange list" where
  "supplier_loop e amount suppliers [] = Inr []"
| "supplier_loop e amount suppliers (supplier # rest) =
     (case get_pop_weighted_share e supplier suppliers of
        Inl x \<Rightarrow> Inl x
      | Inr share \<Rightarrow>
          (case supplier_loop e amount suppliers rest of
             Inl x \<Rightarrow> Inl x
           | Inr xs \<Rightarrow> Inr (supplier_exchange supplier (fmul amount (Fin share)) # xs)))"

text \<open>
  The body of the technology loop under its test that the technology contributes:
  the names of the technology, the cascade, the supplier loop.
\<close>

definition technology_exchanges ::
  "env \<Rightarrow> dataset list \<Rightarrow> py_locs \<Rightarrow> string \<Rightarrow> string \<Rightarrow> error + exchange list" where
  "technology_exchanges e db ecoinvent_regions region technology =
     (let amount = electricity_markets e technology region in
      case rev_electricity_market_labels e technology of
        None \<Rightarrow> Inl KeyError
      | Some label \<Rightarrow>
          (case powerplant_map e label of
             None \<Rightarrow> Inl KeyError
           | Some ecoinvent_technologies \<Rightarrow>
               (case resolve_suppliers db ecoinvent_regions ecoinvent_technologies of
                  Inl x \<Rightarrow> Inl x
                | Inr suppliers \<Rightarrow> supplier_loop e amount suppliers suppliers)))"

subsection \<open>High voltage\<close>

fun high_tech_loop ::
  "env \<Rightarrow> dataset list \<Rightarrow> py_locs \<Rightarrow> string \<Rightarrow> string list \<Rightarrow> error + exchange list" where
  "high_tech_loop e db ecoinvent_regions region [] = Inr []"
| "high_tech_loop e db ecoinvent_regions region (technology # rest) =
     (if electricity_markets e technology region \<noteq> Fin 0 then
        (case technology_exchanges e db ecoinvent_regions region technology of
           Inl x \<Rightarrow> Inl x
         | Inr xs \<Rightarrow>
             (case high_tech_loop e db ecoinvent_regions region rest of
                Inl x \<Rightarrow> Inl x
              | Inr ys \<Rightarrow> Inr (xs @ ys)))
      else high_tech_loop e db ecoinvent_regions region rest)"

definition new_dataset ::
  "env \<Rightarrow> dataset list \<Rightarrow> string \<Rightarrow> string \<Rightarrow> exchange list \<Rightarrow> dataset" where
  "new_dataset e db tier region new_exchanges =
     \<lparr>ds_location = region, ds_name = market_name e tier,
      ds_reference_product = ''electricity, '' @ tier @ '' voltage'', ds_unit = kwh,
      ds_database = ds_database (db ! 1), ds_code = uuid e (length db),
      ds_comment = ''Dataset produced from REMIND scenario output results'',
      ds_exchanges = new_exchanges, ds_parameters = None\<rparr>"

text \<open>
  One pass of the region loop of \<open>create_new_markets_high_voltage\<close>: the dataset appended
  for the region. \<open>self.db[1]\<close> raises \<open>IndexError\<close> on a database of fewer than two
  records. The message printed by \<open>remind_to_ecoinvent_location\<close> is left out of the
  result.
\<close>

definition high_voltage_dataset :: "env \<Rightarrow> dataset list \<Rightarrow> string \<Rightarrow> error + dataset" where
  "high_voltage_dataset e db region =
     (let gen_tech = filter (\<lambda>tech. \<not> contains_str ''Solar'' tech) (variables e);
          ecoinvent_regions = snd (remind_to_ecoinvent_location e region)
      in if length db < 2 then Inl IndexError
         else
           (case high_tech_loop e db ecoinvent_regions region gen_tech of
              Inl x \<Rightarrow> Inl x
            | Inr xs \<Rightarrow>
                Inr (new_dataset e db ''high'' region
                       (production_exchange e ''high'' region # xs))))"

fun high_region_loop :: "env \<Rightarrow> string list \<Rightarrow> dataset list \<Rightarrow> error + dataset list" where
  "high_region_loop e [] db = Inr db"
| "high_region_loop e (region # rest) db =
     (case high_voltage_dataset e db region of
        Inl x \<Rightarrow> Inl x
      | Inr ds \<Rightarrow> high_region_loop e rest (db @ [ds]))"

definition create_new_markets_high_voltage :: "env \<Rightarrow> dataset list \<Rightarrow> error + dataset list" where
  "create_new_markets_high_voltage e db = high_region_loop e (regions e) db"

subsection \<open>Medium voltage\<close>

definition medium_voltage_dataset :: "env \<Rightarrow> dataset list \<Rightarrow> string \<Rightarrow> error + dataset" where
  "medium_voltage_dataset e db region =
     (if length db < 2 then Inl IndexError
      else Inr (new_dataset e db ''medium'' region
        [production_exchange e ''medium'' region,
         flow_exchange ''technosphere'' (Fin (10062 / 10000)) ''electricity, high voltage''
           (market_name e ''high'') kwh region,
         flow_exchange ''technosphere'' (Fin (41 / 10000)) ''electricity, medium voltage''
           (market_name e ''medium'') kwh region,
         sf6_input (Fin (54 / 10 ^ 9)),
         sf6_emission (Fin (54 / 10 ^ 9)),
         flow_exchange ''technosphere'' (Fin (18628 / 10 ^ 12))
           ''transmission network, electricity, medium voltage''
           ''transmission network construction, electricity, medium voltage''
           ''kilometer'' ''RoW'']))"

fun medium_region_loop :: "env \<Rightarrow> string list \<Rightarrow> dataset list \<Rightarrow> error + dataset list" where
  "medium_region_loop e [] db = Inr db"
| "medium_region_loop e (region # rest) db =
     (case medium_voltage_dataset e db region of
        Inl x \<Rightarrow> Inl x
      | Inr ds \<Rightarrow> medium_region_loop e rest (db @ [ds]))"

definition create_new_markets_medium_voltage :: "env \<Rightarrow> dataset list \<Rightarrow> error + dataset list" where
  "create_new_markets_medium_voltage e db = medium_region_loop e (regions e) db"

subsection \<open>Low voltage\<close>

text \<open>
  The solar loop carries \<open>solar_amount\<close>; the locations of the region are resolved inside
  the loop, for each contributing technology.
\<close>

fun low_tech_loop ::
  "env \<Rightarrow> dataset list \<Rightarrow> string \<Rightarrow> string list \<Rightarrow> pyfloat \<Rightarrow> error + (pyfloat \<times> exchange list)"
  where
  "low_tech_loop e db region [] solar_amount = Inr (solar_amount, [])"
| "low_tech_loop e db region (technology # rest) solar_amount =
     (if electricity_markets e technology region \<noteq> Fin 0 then
        (let ecoinvent_regions = snd (remind_to_ecoinvent_location e region);
             amount = electricity_markets e technology region
         in case technology_exchanges e db ecoinvent_regions region technology of
              Inl x \<Rightarrow> Inl x
            | Inr xs \<Rightarrow>
                (case low_tech_loop e db region rest (fadd solar_amount amount) of
                   Inl x \<Rightarrow> Inl x
                 | Inr (s, ys) \<Rightarrow> Inr (s, xs @ ys)))
      else low_tech_loop e db region rest solar_amount)"

definition low_voltage_dataset :: "env \<Rightarrow> dataset list \<Rightarrow> string \<Rightarrow> error + dataset" where
  "low_voltage_dataset e db region =
     (let gen_tech = filter (\<lambda>tech. contains_str ''Solar'' tech) (variables e)
      in if length db < 2 then Inl IndexError
         else
           (case low_tech_loop e db region gen_tech (Fin 0) of
              Inl x \<Rightarrow> Inl x
            | Inr (solar_amount, xs) \<Rightarrow>
                Inr (new_dataset e db ''low'' region
                  ([production_exchange e ''low'' region,
                    sf6_input (Fin (299 / 10 ^ 11)),
                    sf6_emission (Fin (299 / 10 ^ 11)),
                    flow_exchange ''technosphere'' (Fin (874 / 10 ^ 10))
                      ''distribution network, electricity, low voltage''
                      ''distribution network construction, electricity, low voltage''
                      ''kilometer'' ''RoW'']
                   @ xs @
                   [flow_exchange ''technosphere''
                      (fmul (fsub (Fin 1) solar_amount) (Fin (10276 / 10000)))
                      ''electricity, medium voltage'' (market_name e ''medium'') kwh region,
                    flow_exchange ''technosphere'' (Fin (298 / 10000))
                      ''electricity, low voltage'' (market_name e ''low'') kwh region]))))"

fun low_region_loop :: "env \<Rightarrow> string list \<Rightarrow> dataset list \<Rightarrow> error + dataset list" where
  "low_region_loop e [] db = Inr db"
| "low_region_loop e (region # rest) db =
     (case low_voltage_dataset e db region of
        Inl x \<Rightarrow> Inl x
      | Inr ds \<Rightarrow> low_region_loop e rest (db @ [ds]))"

definition create_new_markets_low_voltage :: "env \<Rightarrow> dataset list \<Rightarrow> error + dataset list" where
  "create_new_markets_low_voltage e db = low_region_loop e (regions e) db"

section \<open>Relinking Engine\<close>

text \<open>
  The search functions of the wurst library (\<open>ws\<close>) are read by their documented
  meaning: \<open>ws.equals(field, v)\<close> holds when the field equals \<open>v\<close>,
  \<open>ws.contains(field, v)\<close> when \<open>v in field\<close>, \<open>ws.either\<close> when one of its filters
  holds, \<open>ws.exclude\<close> when its filter does not. \<open>ws.get_many(data, *funcs)\<close> applies the
  filters one after the other; \<open>ws.technosphere\<close> and \<open>ws.biosphere\<close> first keep the
  exchanges of their type.
\<close>

definition get_many :: "'a list \<Rightarrow> ('a \<Rightarrow> bool) list \<Rightarrow> 'a list" where
  "get_many data funcs = foldl (\<lambda>d f. filter f d) data funcs"

definition technosphere :: "dataset \<Rightarrow> (exchange \<Rightarrow> bool) list \<Rightarrow> exchange list" where
  "technosphere ds funcs =
     get_many (filter (\<lambda>x. exc_type x = ''technosphere'') (ds_exchanges ds)) funcs"

text \<open>A loop that rewrites the elements of a list and stops at the first exception.\<close>

fun map_err :: "('a \<Rightarrow> error + 'b) \<Rightarrow> 'a list \<Rightarrow> error + 'b list" where
  "map_err f [] = Inr []"
| "map_err f (x # xs) =
     (case f x of
        Inl err \<Rightarrow> Inl err
      | Inr y \<Rightarrow> (case map_err f xs of Inl err \<Rightarrow> Inl err | Inr ys \<Rightarrow> Inr (y # ys)))"

text \<open>
  One of the three tests \<open>if "high" in exc['product']\<close> with its assignments.
  \<open>self.ecoinvent_to_remind_location(...)[0]\<close> raises \<open>TypeError\<close> on \<open>None\<close> and
  \<open>IndexError\<close> on an empty list.
\<close>

definition relink_tier :: "env \<Rightarrow> string \<Rightarrow> exchange \<Rightarrow> error + exchange" where
  "relink_tier e tier exc =
     (case exc_product exc of
        None \<Rightarrow> Inl KeyError
      | Some p \<Rightarrow>
          if contains_str tier p then
            (case exc_location exc of
               None \<Rightarrow> Inl KeyError
             | Some l \<Rightarrow>
                 (case ecoinvent_to_remind_location e l of
                    Inl x \<Rightarrow> Inl x
                  | Inr (d, None) \<Rightarrow> Inl TypeError
                  | Inr (d, Some []) \<Rightarrow> Inl IndexError
                  | Inr (d, Some (r # rs)) \<Rightarrow>
                      Inr (exc\<lparr>exc_name := market_name e tier,
                                exc_product := Some (''electricity, '' @ tier @ '' voltage''),
                                exc_location := Some r\<rparr>)))
          else Inr exc)"

definition relink_exchange :: "env \<Rightarrow> exchange \<Rightarrow> error + exchange" where
  "relink_exchange e exc =
     (if (contains_str ''kilowatt hour'' (exc_unit exc)
          \<or> contains_str ''market for electricity'' (exc_name exc)
          \<or> contains_str ''electricity voltage transformation'' (exc_name exc)
          \<or> contains_str ''market group for electricity'' (exc_name exc))
         \<and> exc_type exc \<noteq> ''production'' \<and> exc_unit exc = ''kilowatt hour''
      then
        (case relink_tier e ''high'' exc of
           Inl x \<Rightarrow> Inl x
         | Inr exc1 \<Rightarrow>
             (case relink_tier e ''medium'' exc1 of
                Inl x \<Rightarrow> Inl x
              | Inr exc2 \<Rightarrow> relink_tier e ''low'' exc2))
      else Inr exc)"

definition relink_dataset :: "env \<Rightarrow> dataset \<Rightarrow> error + dataset" where
  "relink_dataset e ds =
     (if \<not> contains_str ''market group for electricity'' (ds_name ds) then
        (case map_err (relink_exchange e) (ds_exchanges ds) of
           Inl x \<Rightarrow> Inl x
         | Inr excs \<Rightarrow> Inr (ds\<lparr>ds_exchanges := excs\<rparr>))
      else Inr ds)"

definition relink_activities_to_new_markets :: "env \<Rightarrow> dataset list \<Rightarrow> error + dataset list" where
  "relink_activities_to_new_markets e db = map_err (relink_dataset e) db"

section \<open>Efficiency and Emission Rescaler\<close>

text \<open>
  \<open>ws.reference_product\<close>: the single production exchange with a truthy amount;
  \<open>NoResults\<close> when there is none, \<open>MultipleResults\<close> when there are several.
\<close>

definition reference_product :: "dataset \<Rightarrow> error + exchange" where
  "reference_product ds =
     (case filter (\<lambda>exc. exc_amount exc \<noteq> Fin 0 \<and> exc_type exc = ''production'')
             (ds_exchanges ds) of
        [] \<Rightarrow> Inl NoResults
      | [exc] \<Rightarrow> Inr exc
      | _ \<Rightarrow> Inl MultipleResults)"

text \<open>
  The nested comprehension of the energy input: for each fuel \<open>k\<close> of the heating-value
  table, the fuel exchanges whose name contains \<open>k\<close>, each as
  \<open>float(self.fuels_lhv[k]) / 3.6 * exc['amount']\<close>; \<open>np.sum(np.sum(...))\<close> adds all of them.
\<close>

definition lhv_energy_input :: "env \<Rightarrow> dataset \<Rightarrow> (exchange \<Rightarrow> bool) list \<Rightarrow> pyfloat" where
  "lhv_energy_input e ds fuel_filters =
     fsum (concat (map (\<lambda>(k, v).
        map (\<lambda>exc. fmul (Fin (v / (36 / 10))) (exc_amount exc))
          (filter (\<lambda>exc. contains_str k (exc_name exc)) (technosphere ds fuel_filters)))
        (fuels_lhv e)))"

definition plain_energy_input :: "dataset \<Rightarrow> (exchange \<Rightarrow> bool) list \<Rightarrow> pyfloat" where
  "plain_energy_input ds fuel_filters =
     fsum (map (\<lambda>exc. fdiv (exc_amount exc) (Fin (36 / 10))) (technosphere ds fuel_filters))"

text \<open>
  \<open>find_ecoinvent_fuel_efficiency\<close> returns the efficiency and leaves the dataset with its
  \<open>parameters\<close> written; the result is both. The division is numpy's: a zero energy input
  gives an infinity or NaN, not an exception.
\<close>

definition find_ecoinvent_fuel_efficiency ::
  "env \<Rightarrow> dataset \<Rightarrow> (exchange \<Rightarrow> bool) list \<Rightarrow> error + (pyfloat \<times> dataset)" where
  "find_ecoinvent_fuel_efficiency e ds fuel_filters =
     (if contains_str ''ecoinvent'' (ds_database ds) then
        (case ds_parameters ds of
           None \<Rightarrow> Inl KeyError
         | Some params \<Rightarrow>
             (case filter (\<lambda>key. contains_str ''efficiency'' key \<and> \<not> contains_str ''thermal'' key)
                     (map fst params) of
                k # ks \<Rightarrow>
                  (case map_of params k of None \<Rightarrow> Inl KeyError | Some v \<Rightarrow> Inr (v, ds))
              | [] \<Rightarrow>
                  (let energy_input = lhv_energy_input e ds fuel_filters in
                   case reference_product ds of
                     Inl x \<Rightarrow> Inl x
                   | Inr rp \<Rightarrow>
                       (let eff = fdiv (exc_amount rp) energy_input
                        in Inr (eff, ds\<lparr>ds_parameters :=
                                       Some (AList.update ''efficiency'' eff params)\<rparr>)))))
      else
        (let energy_input = plain_energy_input ds fuel_filters in
         case reference_product ds of
           Inl x \<Rightarrow> Inl x
         | Inr rp \<Rightarrow>
             (let eff = fdiv (exc_amount rp) energy_input
              in Inr (eff, ds\<lparr>ds_parameters := Some [(''efficiency'', eff)]\<rparr>))))"

text \<open>
  Modelled from the spec: \<open>wurst.rescale_exchange(exc, value, remove_uncertainty)\<close>, a
  function of the wurst library that the sources call and do not contain. The
  specification describes the call as a multiplicative rescale of the amount and names
  the stripping of the uncertainty metadata: the amount is multiplied by \<open>value\<close>; with
  \<open>remove_uncertainty\<close> the uncertainty type becomes 0, \<open>loc\<close> the new amount, and the
  other uncertainty keys are deleted; without it the uncertainty fields pass through.
\<close>

definition rescale_exchange :: "exchange \<Rightarrow> pyfloat \<Rightarrow> bool \<Rightarrow> exchange" where
  "rescale_exchange exc v remove_uncertainty =
     (let a = fmul (exc_amount exc) v in
      if remove_uncertainty
      then exc\<lparr>exc_amount := a, exc_uncertainty_type := 0, exc_loc := a, exc_uncertainty := []\<rparr>
      else exc\<lparr>exc_amount := a\<rparr>)"

text \<open>
  The truth value of \<open>np.isnan(remind_emission)\<close> in \<open>if\<close>: that of its element for an array
  of one value, false for an empty array, \<open>ValueError\<close> for more than one value.
\<close>

fun isnan_truth :: "pyfloat list \<Rightarrow> error + bool" where
  "isnan_truth [] = Inr False"
| "isnan_truth [x] = Inr (x = NaN)"
| "isnan_truth (x # y # zs) = Inl ValueError"

text \<open>
  The body of the biosphere loop of \<open>update_electricity_efficiency\<close> for one exchange: the
  printed diagnostics and the exchange as it is left.
\<close>

definition rescale_emission ::
  "env \<Rightarrow> dataset \<Rightarrow> string \<Rightarrow> exchange \<Rightarrow> error + (diag list \<times> exchange)" where
  "rescale_emission e ds remind_technology exc =
     (case map_of (emissions_map e) (exc_name exc) of
        None \<Rightarrow> Inl KeyError
      | Some remind_emission_label \<Rightarrow>
     (case ecoinvent_to_remind_location e (ds_location ds) of
        Inl x \<Rightarrow> Inl x
      | Inr (d1, regs) \<Rightarrow>
     (case electricity_emission_labels e remind_technology of
        None \<Rightarrow> Inl KeyError
      | Some sector \<Rightarrow>
     (case emissions_lookup e regs remind_emission_label sector of
        Inl x \<Rightarrow> Inl x
      | Inr remind_emission \<Rightarrow>
     (case isnan_truth remind_emission of
        Inl x \<Rightarrow> Inl x
      | Inr isnan \<Rightarrow>
         (let d2 = (if isnan
                    then [NanEmission remind_emission remind_emission_label (ds_name ds)]
                    else [])
          in case remind_emission of
               [] \<Rightarrow> Inl IndexError
             | t # ts \<Rightarrow>
                 if exc_amount exc = Fin 0
                 then Inr (d1 @ d2, rescale_exchange exc (fdiv t (Fin 1)) True)
                 else Inr (d1 @ d2, rescale_exchange exc (fdiv t (exc_amount exc))
                                      (remove_uncertainty_default e))))))))"

definition is_emission :: "env \<Rightarrow> exchange \<Rightarrow> bool" where
  "is_emission e exc \<longleftrightarrow>
     exc_type exc = ''biosphere''
     \<and> (\<exists>x \<in> set (map fst (emissions_map e)). contains_str x (exc_name exc))"

fun emissions_loop ::
  "env \<Rightarrow> dataset \<Rightarrow> string \<Rightarrow> exchange list \<Rightarrow> error + (diag list \<times> exchange list)" where
  "emissions_loop e ds remind_technology [] = Inr ([], [])"
| "emissions_loop e ds remind_technology (exc # rest) =
     (if is_emission e exc then
        (case rescale_emission e ds remind_technology exc of
           Inl x \<Rightarrow> Inl x
         | Inr (d, exc') \<Rightarrow>
             (case emissions_loop e ds remind_technology rest of
                Inl x \<Rightarrow> Inl x
              | Inr (ds', excs) \<Rightarrow> Inr (d @ ds', exc' # excs)))
      else
        (case emissions_loop e ds remind_technology rest of
           Inl x \<Rightarrow> Inl x
         | Inr (ds', excs) \<Rightarrow> Inr (ds', exc # excs)))"

definition rescale_emissions ::
  "env \<Rightarrow> dataset \<Rightarrow> string \<Rightarrow> error + (diag list \<times> dataset)" where
  "rescale_emissions e ds remind_technology =
     (case emissions_loop e ds remind_technology (ds_exchanges ds) of
        Inl x \<Rightarrow> Inl x
      | Inr (d, excs) \<Rightarrow> Inr (d, ds\<lparr>ds_exchanges := excs\<rparr>))"

section \<open>Updating the electricity markets\<close>

definition list_to_remove :: "string list" where
  "list_to_remove =
     [''market group for electricity, high voltage'',
      ''market group for electricity, medium voltage'',
      ''market group for electricity, low voltage'',
      ''market for electricity, high voltage'',
      ''market for electricity, medium voltage'',
      ''market for electricity, low voltage'',
      ''electricity, high voltage, import'',
      ''electricity, high voltage, production mix'']"

definition remove_old_markets :: "dataset list \<Rightarrow> dataset list" where
  "remove_old_markets db =
     filter (\<lambda>i. \<not> (\<exists>stop \<in> set list_to_remove. contains_str stop (ds_name i))) db"

definition update_electricity_markets :: "env \<Rightarrow> dataset list \<Rightarrow> error + dataset list" where
  "update_electricity_markets e db =
     (case create_new_markets_high_voltage e (remove_old_markets db) of
        Inl x \<Rightarrow> Inl x
      | Inr db1 \<Rightarrow>
          (case create_new_markets_medium_voltage e db1 of
             Inl x \<Rightarrow> Inl x
           | Inr db2 \<Rightarrow>
               (case create_new_markets_low_voltage e db2 of
                  Inl x \<Rightarrow> Inl x
                | Inr db3 \<Rightarrow> relink_activities_to_new_markets e db3)))"

section \<open>Notions used to state the properties\<close>

text \<open>
  The sum of the amounts of the technosphere exchanges of a dataset whose product is \<open>p\<close>,
  and the same on the result of a builder.
\<close>

definition product_amount :: "string \<Rightarrow> dataset \<Rightarrow> pyfloat" where
  "product_amount p ds =
     fsum (map exc_amount
       (filter (\<lambda>exc. exc_type exc = ''technosphere'' \<and> exc_product exc = Some p)
          (ds_exchanges ds)))"

definition built_product_amount :: "string \<Rightarrow> error + dataset \<Rightarrow> error + pyfloat" where
  "built_product_amount p r = (case r of Inl x \<Rightarrow> Inl x | Inr ds \<Rightarrow> Inr (product_amount p ds))"

text \<open>The amounts of the production exchanges of a dataset, in order.\<close>

definition production_amounts :: "dataset \<Rightarrow> pyfloat list" where
  "production_amounts ds =
     map exc_amount (filter (\<lambda>exc. exc_type exc = ''production'') (ds_exchanges ds))"

text \<open>
  An exchange that references a synthesized tier market and whose location the reverse
  region mapping sends to a list headed by that same location.
\<close>

definition settled :: "env \<Rightarrow> exchange \<Rightarrow> bool" where
  "settled e exc \<longleftrightarrow>
     (\<exists>tier \<in> set [''high'', ''medium'', ''low''].
        exc_name exc = market_name e tier
        \<and> exc_product exc = Some (''electricity, '' @ tier @ '' voltage''))
     \<and> (case exc_location exc of
          None \<Rightarrow> False
        | Some r \<Rightarrow>
            (case ecoinvent_to_remind_location e r of
               Inr (d, Some (r' # rs)) \<Rightarrow> r' = r
             | _ \<Rightarrow> False))"

text \<open>
  The energy input in the words of the specification: the sum, over the fuel exchanges, of
  (lower heating value of a fuel matching the exchange \<open>\<div>\<close> 3.6) \<open>\<times>\<close> the exchange's amount.
\<close>

definition spec_energy_input :: "(string \<times> real) list \<Rightarrow> exchange list \<Rightarrow> pyfloat" where
  "spec_energy_input lhv fuel_exchanges =
     fsum (concat (map (\<lambda>exc.
        map (\<lambda>kv. fmul (Fin (snd kv / (36 / 10))) (exc_amount exc))
          (filter (\<lambda>kv. contains_str (fst kv) (exc_name exc)) lhv))
        fuel_exchanges))"

definition efficiency_key :: "string \<Rightarrow> bool" where
  "efficiency_key key \<longleftrightarrow> contains_str ''efficiency'' key \<and> \<not> contains_str ''thermal'' key"

section \<open>A small inventory and scenario\<close>

definition plant :: "string \<Rightarrow> string \<Rightarrow> string \<Rightarrow> exchange list \<Rightarrow> dataset" where
  "plant nm lc pr excs =
     \<lparr>ds_location = lc, ds_name = nm, ds_reference_product = pr, ds_unit = ''kilowatt hour'',
      ds_database = ''ecoinvent 3.5 cutoff'', ds_code = ''0'', ds_comment = [],
      ds_exchanges = excs, ds_parameters = Some []\<rparr>"

definition so2 :: "pyfloat \<Rightarrow> exchange" where
  "so2 a =
     \<lparr>exc_uncertainty_type = 2, exc_uncertainty = [(''scale'', Fin (1 / 10))], exc_loc = a,
      exc_amount = a, exc_type = ''biosphere'', exc_production_volume = None,
      exc_product = None, exc_name = ''Sulfur dioxide'', exc_unit = ''kilogram'',
      exc_location = None, exc_input = Some (''biosphere3'', ''so2''),
      exc_categories = Some [''air'']\<rparr>"

definition coal_DE :: dataset where
  "coal_DE = plant ''electricity production, hard coal'' ''DE'' ''electricity, high voltage''
     [flow_exchange ''production'' (Fin 1) ''electricity, high voltage''
        ''electricity production, hard coal'' ''kilowatt hour'' ''DE'',
      flow_exchange ''technosphere'' (Fin (4 / 10)) ''hard coal''
        ''market for hard coal'' ''kilogram'' ''DE'',
      so2 (Fin 0), so2 (Fin 2)]"

definition coal_FR :: dataset where
  "coal_FR = plant ''electricity production, hard coal'' ''FR'' ''electricity, high voltage'' []"

definition coal_GLO :: dataset where
  "coal_GLO = plant ''electricity production, hard coal'' ''GLO'' ''electricity, high voltage'' []"

definition coal_RER :: dataset where
  "coal_RER = plant ''electricity production, hard coal'' ''RER'' ''electricity, high voltage'' []"

definition pv_DE :: dataset where
  "pv_DE = plant ''electricity production, photovoltaic'' ''DE'' ''electricity, low voltage'' []"

definition consumer_DE :: dataset where
  "consumer_DE = plant ''steel production'' ''DE'' ''steel''
     [flow_exchange ''technosphere'' (Fin (1 / 2)) ''electricity, high voltage''
        ''market for electricity, high voltage'' ''kilowatt hour'' ''DE'']"

definition old_market_DE :: dataset where
  "old_market_DE =
     plant ''market for electricity, high voltage'' ''DE'' ''electricity, high voltage'' []"

definition example_db :: "dataset list" where
  "example_db = [coal_DE, coal_FR, pv_DE]"

definition example_env :: env where
  "example_env =
     \<lparr>scenario = ''SSP2'', year = ''2030'',
      geo_intersects = (\<lambda>r. if r = ''EUR''
         then Some [Plain ''DE'', Plain ''FR'', Tagged ''REMIND'' ''EUR''] else None),
      geo_within = (\<lambda>l. if l = ''DE'' \<or> l = ''FR''
         then Some [Tagged ''REMIND'' ''EUR'', Tagged ''REMIND'' ''World'', Plain ''RER'']
         else if l = ''AQ'' then Some [Plain ''GLO''] else None),
      population = (\<lambda>l. if l = ''DE'' then Some 7000000
         else if l = ''FR'' then Some 3000000 else None),
      regions = [''EUR''],
      variables = [''Coal'', ''Solar PV''],
      electricity_markets = (\<lambda>t r. if t = ''Coal'' then Fin (6 / 10)
         else if t = ''Solar PV'' then Fin (4 / 10) else Fin 0),
      rev_electricity_market_labels = (\<lambda>t. if t = ''Coal'' then Some ''Coal PC''
         else if t = ''Solar PV'' then Some ''Solar PV'' else None),
      powerplant_map = (\<lambda>t. if t = ''Coal PC'' then Some [''electricity production, hard coal'']
         else if t = ''Solar PV'' then Some [''electricity production, photovoltaic'']
         else None),
      emissions_map = [(''Sulfur dioxide'', ''SO2'')],
      electricity_emission_labels = (\<lambda>t. if t = ''Coal PC'' then Some ''Power|Coal'' else None),
      emissions_lookup = (\<lambda>regs p s. if regs = Some [''EUR'']
         then Inr [Fin (42 / 1000)] else Inl KeyError),
      fuels_lhv = [(''hard coal'', 267 / 10), (''lignite'', 99 / 10)],
      uuid = (\<lambda>n. ''0''), remove_uncertainty_default = True\<rparr>"

definition example_high_market :: dataset where
  "example_high_market =
     new_dataset example_env example_db ''high'' ''EUR''
       [production_exchange example_env ''high'' ''EUR'',
        supplier_exchange coal_DE (Fin (42 / 100)), supplier_exchange coal_FR (Fin (18 / 100))]"

definition example_low_market :: dataset where
  "example_low_market =
     new_dataset example_env example_db ''low'' ''EUR''
       [production_exchange example_env ''low'' ''EUR'',
        sf6_input (Fin (299 / 10 ^ 11)), sf6_emission (Fin (299 / 10 ^ 11)),
        flow_exchange ''technosphere'' (Fin (874 / 10 ^ 10))
          ''distribution network, electricity, low voltage''
          ''distribution network construction, electricity, low voltage'' ''kilometer'' ''RoW'',
        supplier_exchange pv_DE (Fin (4 / 10)),
        flow_exchange ''technosphere'' (Fin (6 / 10 * (10276 / 10000)))
          ''electricity, medium voltage'' (market_name example_env ''medium'') kwh ''EUR'',
        flow_exchange ''technosphere'' (Fin (298 / 10000))
          ''electricity, low voltage'' (market_name example_env ''low'') kwh ''EUR'']"

definition world_db :: "dataset list" where
  "world_db = [coal_GLO, coal_RER]"

definition nan_env :: env where
  "nan_env = example_env\<lparr>emissions_lookup := (\<lambda>regs p s. Inr [NaN])\<rparr>"

definition stable_env :: env where
  "stable_env = example_env\<lparr>geo_within := (\<lambda>l. Some [Tagged ''REMIND'' ''EUR''])\<rparr>"

definition relinked_consumer :: dataset where
  "relinked_consumer = plant ''steel production'' ''DE'' ''steel''
     [flow_exchange ''technosphere'' (Fin (1 / 2)) ''electricity, high voltage''
        (market_name example_env ''high'') ''kilowatt hour'' ''EUR'']"

text \<open>The fuel filters of the technology \<open>Coal PC\<close> in \<open>get_remind_mapping\<close>.\<close>

definition coal_fuel_filters :: "(exchange \<Rightarrow> bool) list" where
  "coal_fuel_filters =
     [\<lambda>x. contains_str ''hard coal'' (exc_name x) \<or> contains_str ''lignite'' (exc_name x),
      \<lambda>x. \<not> contains_str ''ash'' (exc_name x) \<and> \<not> contains_str ''SOx'' (exc_name x),
      \<lambda>x. exc_unit x = ''kilogram'']"

definition rated_coal_DE :: dataset where
  "rated_coal_DE =
     coal_DE\<lparr>ds_parameters := Some [(''thermal efficiency'', Fin (9 / 10)),
                                        (''efficiency'', Fin (38 / 100))]\<rparr>"

definition carma_coal_DE :: dataset where
  "carma_coal_DE = coal_DE\<lparr>ds_database := ''Carma CCS'', ds_parameters := None\<rparr>"

definition hard_coal_input :: exchange where
  "hard_coal_input = flow_exchange ''technosphere'' (Fin (4 / 10)) ''hard coal''
        ''market for hard coal'' ''kilogram'' ''DE''"

definition coal_output :: exchange where
  "coal_output = flow_exchange ''production'' (Fin 1) ''electricity, high voltage''
        ''electricity production, hard coal'' ''kilowatt hour'' ''DE''"

definition example_medium_market :: dataset where
  "example_medium_market =
     new_dataset example_env example_db ''medium'' ''EUR''
       [production_exchange example_env ''medium'' ''EUR'',
        flow_exchange ''technosphere'' (Fin (10062 / 10000)) ''electricity, high voltage''
          (market_name example_env ''high'') kwh ''EUR'',
        flow_exchange ''technosphere'' (Fin (41 / 10000)) ''electricity, medium voltage''
          (market_name example_env ''medium'') kwh ''EUR'',
        sf6_input (Fin (54 / 10 ^ 9)),
        sf6_emission (Fin (54 / 10 ^ 9)),
        flow_exchange ''technosphere'' (Fin (18628 / 10 ^ 12))
          ''transmission network, electricity, medium voltage''
          ''transmission network construction, electricity, medium voltage''
          ''kilometer'' ''RoW'']"

section \<open>Properties\<close>

lemma contains_str_sublist: "contains_str sub s = sublist sub s"
  by (induction s) (auto simp: sublist_Cons_right)

subsection \<open>Population-weighted share\<close>

text \<open>
  C7. When the populations of the suppliers' locations sum to a positive number,
  \<open>get_pop_weighted_share\<close> returns the population of the supplier's location divided by
  that sum, a location absent from the population table counting as 0. Two suppliers
  with populations 7,000,000 and 3,000,000 receive exactly 0.7 and 0.3.
\<close>

theorem pop_weighted_share_value:
  "(0 < (\<Sum>s\<leftarrow>suppliers. case population e (ds_location s) of Some p \<Rightarrow> p | None \<Rightarrow> 0) \<longrightarrow>
      get_pop_weighted_share e supplier suppliers =
        Inr (real_of_int (case population e (ds_location supplier) of Some p \<Rightarrow> p | None \<Rightarrow> 0)
             / real_of_int
                 (\<Sum>s\<leftarrow>suppliers. case population e (ds_location s) of Some p \<Rightarrow> p | None \<Rightarrow> 0)))
   \<and> (population e (ds_location s1) = Some 7000000
      \<and> population e (ds_location s2) = Some 3000000 \<longrightarrow>
      get_pop_weighted_share e s1 [s1, s2] = Inr (7 / 10)
      \<and> get_pop_weighted_share e s2 [s1, s2] = Inr (3 / 10))"
  by (simp add: get_pop_weighted_share_def locs_population_def pop_of_def)

theorem pop_weighted_share_value_witness:
  "get_pop_weighted_share example_env coal_DE [coal_DE, coal_FR] = Inr (7 / 10)
   \<and> get_pop_weighted_share example_env coal_FR [coal_DE, coal_FR] = Inr (3 / 10)
   \<and> population example_env (ds_location coal_DE) = Some 7000000
   \<and> population example_env (ds_location coal_FR) = Some 3000000"
  using pop_weighted_share_value [where suppliers = "[coal_DE, coal_FR]" and e = example_env
      and supplier = coal_DE and ?s1.0 = coal_DE and ?s2.0 = coal_FR]
  by (simp add: example_env_def coal_DE_def coal_FR_def plant_def)

subsection \<open>Reverse region mapping without a region\<close>

text \<open>
  C3, as the claim states it, fails: for the location \<open>AQ\<close>, which lies in no scenario
  region, \<open>ecoinvent_to_remind_location\<close> prints its diagnostic and returns \<open>None\<close>, not an
  empty list.
\<close>

theorem no_region_returns_none_counterexample:
  "ecoinvent_to_remind_location example_env ''AQ'' = Inr ([NoLocFor ''AQ''], None)
   \<and> ecoinvent_to_remind_location example_env ''AQ'' \<noteq> Inr ([NoLocFor ''AQ''], Some [])"
  by (simp add: ecoinvent_to_remind_location_def example_env_def)

text \<open>
  C3, amended. For a location that is none of the three literal shortcuts and for which
  the geomatcher yields no scenario region, \<open>ecoinvent_to_remind_location\<close> prints the
  diagnostic \<open>no loc for <location>\<close> and returns \<open>None\<close>.
\<close>

theorem no_region_returns_none:
  "location \<noteq> ''GLO'' \<and> location \<noteq> ''RoW''
   \<and> location \<noteq> ''IAI Area, Russia & RER w/o EU27 & EFTA''
   \<and> geo_within e location = Some ks \<and> remind_regions ks = Inr []
   \<longrightarrow> ecoinvent_to_remind_location e location = Inr ([NoLocFor location], None)"
  by (simp add: ecoinvent_to_remind_location_def)

theorem no_region_returns_none_witness:
  "geo_within example_env ''AQ'' = Some [Plain ''GLO''] \<and> remind_regions [Plain ''GLO''] = Inr []
   \<and> ecoinvent_to_remind_location example_env ''AQ'' = Inr ([NoLocFor ''AQ''], None)"
  using no_region_returns_none [where location = "''AQ''" and e = example_env
      and ks = "[Plain ''GLO'']"]
  by (simp add: example_env_def)

subsection \<open>The market builders\<close>

lemma supplier_loop_technosphere:
  "supplier_loop e a S rest = Inr xs \<Longrightarrow> \<forall>x \<in> set xs. exc_type x = ''technosphere''"
  by (induction rest arbitrary: xs)
     (auto split: sum.splits simp: supplier_exchange_def flow_exchange_def)

lemma technology_exchanges_technosphere:
  "technology_exchanges e db locs r t = Inr xs \<Longrightarrow> \<forall>x \<in> set xs. exc_type x = ''technosphere''"
  unfolding technology_exchanges_def Let_def
  by (auto split: option.splits sum.splits dest: supplier_loop_technosphere)

lemma high_tech_loop_technosphere:
  "high_tech_loop e db locs r ts = Inr xs \<Longrightarrow> \<forall>x \<in> set xs. exc_type x = ''technosphere''"
proof (induction ts arbitrary: xs)
  case Nil
  then show ?case by simp
next
  case (Cons t ts)
  show ?case
  proof (cases "electricity_markets e t r \<noteq> Fin 0")
    case True
    with Cons.prems obtain ys zs where
      ys: "technology_exchanges e db locs r t = Inr ys" and
      zs: "high_tech_loop e db locs r ts = Inr zs" and xs: "xs = ys @ zs"
      by (auto split: sum.splits)
    from technology_exchanges_technosphere [OF ys] Cons.IH [OF zs] xs show ?thesis by auto
  next
    case False
    with Cons.prems have "high_tech_loop e db locs r ts = Inr xs" by simp
    then show ?thesis by (rule Cons.IH)
  qed
qed

lemma low_tech_loop_technosphere:
  "low_tech_loop e db r ts s = Inr (s', xs) \<Longrightarrow> \<forall>x \<in> set xs. exc_type x = ''technosphere''"
proof (induction ts arbitrary: xs s s')
  case Nil
  then show ?case by simp
next
  case (Cons t ts)
  show ?case
  proof (cases "electricity_markets e t r \<noteq> Fin 0")
    case True
    with Cons.prems obtain ys zs where
      ys: "technology_exchanges e db (snd (remind_to_ecoinvent_location e r)) r t = Inr ys" and
      zs: "low_tech_loop e db r ts (fadd s (electricity_markets e t r)) = Inr (s', zs)"
      and xs: "xs = ys @ zs"
      by (auto simp: Let_def split: sum.splits)
    from technology_exchanges_technosphere [OF ys] Cons.IH [OF zs] xs show ?thesis by auto
  next
    case False
    with Cons.prems have "low_tech_loop e db r ts s = Inr (s', xs)" by simp
    then show ?thesis by (rule Cons.IH)
  qed
qed

lemma no_production:
  "\<forall>x \<in> set xs. exc_type x = ''technosphere'' \<Longrightarrow>
   filter (\<lambda>exc. exc_type exc = ''production'') xs = []"
  by (auto simp: filter_empty_conv)

lemma high_voltage_dataset_production:
  assumes "high_voltage_dataset e db r = Inr ds"
  shows "production_amounts ds = [Fin 1] \<and> ds_location ds = r"
proof -
  let ?loop = "high_tech_loop e db (snd (remind_to_ecoinvent_location e r)) r
           (filter (\<lambda>tech. \<not> contains_str ''Solar'' tech) (variables e))"
  from assms obtain xs where
    xs: "?loop = Inr xs" and
    ds: "ds = new_dataset e db ''high'' r (production_exchange e ''high'' r # xs)"
    unfolding high_voltage_dataset_def Let_def
    by (cases ?loop) (simp_all split: if_splits)
  have "filter (\<lambda>exc. exc_type exc = ''production'') xs = []"
    by (rule no_production [OF high_tech_loop_technosphere [OF xs]])
  with ds show ?thesis
    by (simp add: production_amounts_def new_dataset_def production_exchange_def
          flow_exchange_def)
qed


lemma medium_voltage_dataset_production:
  assumes "medium_voltage_dataset e db r = Inr ds"
  shows "production_amounts ds = [Fin 1] \<and> ds_location ds = r"
proof -
  from assms have ds: "ds = new_dataset e db ''medium'' r
        [production_exchange e ''medium'' r,
         flow_exchange ''technosphere'' (Fin (10062 / 10000)) ''electricity, high voltage''
           (market_name e ''high'') kwh r,
         flow_exchange ''technosphere'' (Fin (41 / 10000)) ''electricity, medium voltage''
           (market_name e ''medium'') kwh r,
         sf6_input (Fin (54 / 10 ^ 9)),
         sf6_emission (Fin (54 / 10 ^ 9)),
         flow_exchange ''technosphere'' (Fin (18628 / 10 ^ 12))
           ''transmission network, electricity, medium voltage''
           ''transmission network construction, electricity, medium voltage''
           ''kilometer'' ''RoW'']"
    unfolding medium_voltage_dataset_def by (simp split: if_splits)
  show ?thesis unfolding ds
    by (simp add: production_amounts_def new_dataset_def production_exchange_def
          flow_exchange_def sf6_input_def sf6_emission_def)
qed

lemma low_voltage_dataset_exchanges:
  assumes "low_voltage_dataset e db r = Inr ds"
  shows "\<exists>s xs. low_tech_loop e db r
           (filter (\<lambda>tech. contains_str ''Solar'' tech) (variables e)) (Fin 0) = Inr (s, xs)
         \<and> ds = new_dataset e db ''low'' r
           ([production_exchange e ''low'' r, sf6_input (Fin (299 / 10 ^ 11)),
            sf6_emission (Fin (299 / 10 ^ 11)),
            flow_exchange ''technosphere'' (Fin (874 / 10 ^ 10))
              ''distribution network, electricity, low voltage''
              ''distribution network construction, electricity, low voltage''
              ''kilometer'' ''RoW'']
           @ xs @
           [flow_exchange ''technosphere''
              (fmul (fsub (Fin 1) s) (Fin (10276 / 10000)))
              ''electricity, medium voltage'' (market_name e ''medium'') kwh r,
            flow_exchange ''technosphere'' (Fin (298 / 10000))
              ''electricity, low voltage'' (market_name e ''low'') kwh r])"
proof -
  let ?loop = "low_tech_loop e db r
           (filter (\<lambda>tech. contains_str ''Solar'' tech) (variables e)) (Fin 0)"
  show ?thesis
  proof (cases ?loop)
    case (Inl x)
    with assms show ?thesis unfolding low_voltage_dataset_def Let_def
      by (simp split: if_splits)
  next
    case (Inr p)
    obtain s xs where p: "p = (s, xs)" by (cases p)
    from assms Inr p show ?thesis unfolding low_voltage_dataset_def Let_def
      by (simp split: if_splits)
  qed
qed

lemma low_voltage_dataset_production:
  assumes "low_voltage_dataset e db r = Inr ds"
  shows "production_amounts ds = [Fin 1] \<and> ds_location ds = r"
proof -
  from low_voltage_dataset_exchanges [OF assms] obtain s xs where
    xs: "low_tech_loop e db r
           (filter (\<lambda>tech. contains_str ''Solar'' tech) (variables e)) (Fin 0) = Inr (s, xs)" and
    ds: "ds = new_dataset e db ''low'' r
           ([production_exchange e ''low'' r, sf6_input (Fin (299 / 10 ^ 11)),
            sf6_emission (Fin (299 / 10 ^ 11)),
            flow_exchange ''technosphere'' (Fin (874 / 10 ^ 10))
              ''distribution network, electricity, low voltage''
              ''distribution network construction, electricity, low voltage''
              ''kilometer'' ''RoW'']
           @ xs @
           [flow_exchange ''technosphere''
              (fmul (fsub (Fin 1) s) (Fin (10276 / 10000)))
              ''electricity, medium voltage'' (market_name e ''medium'') kwh r,
            flow_exchange ''technosphere'' (Fin (298 / 10000))
              ''electricity, low voltage'' (market_name e ''low'') kwh r])"
    by blast
  have "filter (\<lambda>exc. exc_type exc = ''production'') xs = []"
    by (rule no_production [OF low_tech_loop_technosphere [OF xs]])
  then show ?thesis unfolding ds
    by (simp add: production_amounts_def new_dataset_def production_exchange_def
          flow_exchange_def sf6_input_def sf6_emission_def)
qed

lemma high_region_loop_step:
  "high_region_loop e (r # rs) db = Inr db' \<Longrightarrow>
   \<exists>ds. high_voltage_dataset e db r = Inr ds \<and> high_region_loop e rs (db @ [ds]) = Inr db'"
  by (cases "high_voltage_dataset e db r") simp_all

lemma extend_new:
  assumes "db' = (db @ [ds]) @ new" "map ds_location new = rs"
    "\<forall>d \<in> set new. production_amounts d = [Fin 1]"
    "production_amounts ds = [Fin 1] \<and> ds_location ds = r"
  shows "\<exists>new. db' = db @ new \<and> map ds_location new = r # rs
     \<and> (\<forall>d \<in> set new. production_amounts d = [Fin 1])"
proof (intro exI conjI)
  show "db' = db @ (ds # new)" using assms(1) by simp
  show "map ds_location (ds # new) = r # rs" using assms(2,4) by simp
  show "\<forall>d \<in> set (ds # new). production_amounts d = [Fin 1]" using assms(3,4) by simp
qed

lemma high_region_loop_new:
  "high_region_loop e rs db = Inr db' \<Longrightarrow>
   \<exists>new. db' = db @ new \<and> map ds_location new = rs
     \<and> (\<forall>ds \<in> set new. production_amounts ds = [Fin 1])"
proof (induction rs arbitrary: db)
  case Nil
  then show ?case by simp
next
  case (Cons r rs)
  from high_region_loop_step [OF Cons.prems] obtain ds where
    ds: "high_voltage_dataset e db r = Inr ds" and
    rest: "high_region_loop e rs (db @ [ds]) = Inr db'"
    by (elim exE conjE)
  from Cons.IH [OF rest] obtain new where
    n: "db' = (db @ [ds]) @ new" "map ds_location new = rs"
    "\<forall>d \<in> set new. production_amounts d = [Fin 1]" by (elim exE conjE)
  show ?case
    by (rule extend_new [OF n high_voltage_dataset_production [OF ds]])
qed

lemma medium_region_loop_step:
  "medium_region_loop e (r # rs) db = Inr db' \<Longrightarrow>
   \<exists>ds. medium_voltage_dataset e db r = Inr ds \<and> medium_region_loop e rs (db @ [ds]) = Inr db'"
  by (cases "medium_voltage_dataset e db r") simp_all

lemma medium_region_loop_new:
  "medium_region_loop e rs db = Inr db' \<Longrightarrow>
   \<exists>new. db' = db @ new \<and> map ds_location new = rs
     \<and> (\<forall>ds \<in> set new. production_amounts ds = [Fin 1])"
proof (induction rs arbitrary: db)
  case Nil
  then show ?case by simp
next
  case (Cons r rs)
  from medium_region_loop_step [OF Cons.prems] obtain ds where
    ds: "medium_voltage_dataset e db r = Inr ds" and
    rest: "medium_region_loop e rs (db @ [ds]) = Inr db'"
    by (elim exE conjE)
  from Cons.IH [OF rest] obtain new where
    n: "db' = (db @ [ds]) @ new" "map ds_location new = rs"
    "\<forall>d \<in> set new. production_amounts d = [Fin 1]" by (elim exE conjE)
  show ?case
    by (rule extend_new [OF n medium_voltage_dataset_production [OF ds]])
qed

lemma low_region_loop_step:
  "low_region_loop e (r # rs) db = Inr db' \<Longrightarrow>
   \<exists>ds. low_voltage_dataset e db r = Inr ds \<and> low_region_loop e rs (db @ [ds]) = Inr db'"
  by (cases "low_voltage_dataset e db r") simp_all

lemma low_region_loop_new:
  "low_region_loop e rs db = Inr db' \<Longrightarrow>
   \<exists>new. db' = db @ new \<and> map ds_location new = rs
     \<and> (\<forall>ds \<in> set new. production_amounts ds = [Fin 1])"
proof (induction rs arbitrary: db)
  case Nil
  then show ?case by simp
next
  case (Cons r rs)
  from low_region_loop_step [OF Cons.prems] obtain ds where
    ds: "low_voltage_dataset e db r = Inr ds" and
    rest: "low_region_loop e rs (db @ [ds]) = Inr db'"
    by (elim exE conjE)
  from Cons.IH [OF rest] obtain new where
    n: "db' = (db @ [ds]) @ new" "map ds_location new = rs"
    "\<forall>d \<in> set new. production_amounts d = [Fin 1]" by (elim exE conjE)
  show ?case
    by (rule extend_new [OF n low_voltage_dataset_production [OF ds]])
qed

subsection \<open>The example inventory, evaluated\<close>

lemma example_locs: "snd (remind_to_ecoinvent_location example_env ''EUR'') = LocList [''DE'', ''FR'']"
  by (simp add: remind_to_ecoinvent_location_def example_env_def)

lemma example_coal_suppliers:
  "resolve_suppliers example_db (LocList [''DE'', ''FR'']) [''electricity production, hard coal'']
   = Inr [coal_DE, coal_FR]"
  by (simp add: resolve_suppliers_def get_suppliers_of_a_region_def suppliers_at_def
        example_db_def coal_DE_def coal_FR_def pv_DE_def plant_def)

lemma example_pv_suppliers:
  "resolve_suppliers example_db (LocList [''DE'', ''FR'']) [''electricity production, photovoltaic'']
   = Inr [pv_DE]"
  by (simp add: resolve_suppliers_def get_suppliers_of_a_region_def suppliers_at_def
        example_db_def coal_DE_def coal_FR_def pv_DE_def plant_def)

lemma example_coal_exchanges:
  "technology_exchanges example_env example_db (LocList [''DE'', ''FR'']) ''EUR'' ''Coal'' =
     Inr [supplier_exchange coal_DE (Fin (42 / 100)), supplier_exchange coal_FR (Fin (18 / 100))]"
proof -
  have l: "rev_electricity_market_labels example_env ''Coal'' = Some ''Coal PC''"
      "powerplant_map example_env ''Coal PC'' = Some [''electricity production, hard coal'']"
      "electricity_markets example_env ''Coal'' ''EUR'' = Fin (6 / 10)"
    by (simp_all add: example_env_def)
  have p: "get_pop_weighted_share example_env coal_DE [coal_DE, coal_FR] = Inr (7 / 10)"
      "get_pop_weighted_share example_env coal_FR [coal_DE, coal_FR] = Inr (3 / 10)"
    by (simp_all add: get_pop_weighted_share_def locs_population_def pop_of_def
          example_env_def coal_DE_def coal_FR_def plant_def)
  show ?thesis
    by (simp add: technology_exchanges_def l example_coal_suppliers p)
qed

lemma example_pv_exchanges:
  "technology_exchanges example_env example_db (LocList [''DE'', ''FR'']) ''EUR'' ''Solar PV'' =
     Inr [supplier_exchange pv_DE (Fin (4 / 10))]"
proof -
  have l: "rev_electricity_market_labels example_env ''Solar PV'' = Some ''Solar PV''"
      "powerplant_map example_env ''Solar PV'' = Some [''electricity production, photovoltaic'']"
      "electricity_markets example_env ''Solar PV'' ''EUR'' = Fin (4 / 10)"
    by (simp_all add: example_env_def)
  have p: "get_pop_weighted_share example_env pv_DE [pv_DE] = Inr 1"
    by (simp_all add: get_pop_weighted_share_def locs_population_def pop_of_def
          example_env_def pv_DE_def plant_def)
  show ?thesis
    by (simp add: technology_exchanges_def l example_pv_suppliers p)
qed

lemma example_gen_tech:
  "filter (\<lambda>tech. \<not> contains_str ''Solar'' tech) (variables example_env) = [''Coal'']"
  "filter (\<lambda>tech. contains_str ''Solar'' tech) (variables example_env) = [''Solar PV'']"
  by (simp_all add: example_env_def)

lemma example_shares:
  "electricity_markets example_env ''Coal'' ''EUR'' = Fin (6 / 10)"
  "electricity_markets example_env ''Solar PV'' ''EUR'' = Fin (4 / 10)"
  "regions example_env = [''EUR'']"
  by (simp_all add: example_env_def)

lemma coal_DE_exchanges:
  "ds_exchanges coal_DE = [coal_output, hard_coal_input, so2 (Fin 0), so2 (Fin 2)]"
  "ds_exchanges rated_coal_DE = ds_exchanges coal_DE"
  "ds_exchanges carma_coal_DE = ds_exchanges coal_DE"
  by (simp_all add: coal_DE_def rated_coal_DE_def carma_coal_DE_def plant_def
        coal_output_def hard_coal_input_def)

lemma example_high:
  "high_voltage_dataset example_env example_db ''EUR'' =
     Inr (new_dataset example_env example_db ''high'' ''EUR''
       [production_exchange example_env ''high'' ''EUR'',
        supplier_exchange coal_DE (Fin (42 / 100)), supplier_exchange coal_FR (Fin (18 / 100))])"
  by (simp add: high_voltage_dataset_def example_gen_tech example_locs example_shares
        example_coal_exchanges) (simp add: example_db_def)

lemma example_low:
  "low_voltage_dataset example_env example_db ''EUR'' =
     Inr (new_dataset example_env example_db ''low'' ''EUR''
       [production_exchange example_env ''low'' ''EUR'',
        sf6_input (Fin (299 / 10 ^ 11)), sf6_emission (Fin (299 / 10 ^ 11)),
        flow_exchange ''technosphere'' (Fin (874 / 10 ^ 10))
          ''distribution network, electricity, low voltage''
          ''distribution network construction, electricity, low voltage'' ''kilometer'' ''RoW'',
        supplier_exchange pv_DE (Fin (4 / 10)),
        flow_exchange ''technosphere'' (Fin (6 / 10 * (10276 / 10000)))
          ''electricity, medium voltage'' (market_name example_env ''medium'') kwh ''EUR'',
        flow_exchange ''technosphere'' (Fin (298 / 10000))
          ''electricity, low voltage'' (market_name example_env ''low'') kwh ''EUR''])"
  by (simp add: low_voltage_dataset_def example_gen_tech example_locs example_shares
        example_pv_exchanges fsub_def) (simp add: example_db_def)

lemma example_high': "high_voltage_dataset example_env example_db ''EUR'' = Inr example_high_market"
  unfolding example_high_market_def by (rule example_high)

lemma example_low': "low_voltage_dataset example_env example_db ''EUR'' = Inr example_low_market"
  unfolding example_low_market_def by (rule example_low)

lemma example_create_high:
  "create_new_markets_high_voltage example_env example_db = Inr (example_db @ [example_high_market])"
  by (simp add: create_new_markets_high_voltage_def example_shares example_high')

lemma example_create_medium:
  "create_new_markets_medium_voltage example_env example_db =
     Inr (example_db @ [example_medium_market])"
  by (simp add: create_new_markets_medium_voltage_def example_shares
        medium_voltage_dataset_def example_medium_market_def)
     (simp add: example_db_def)

lemma example_create_low:
  "create_new_markets_low_voltage example_env example_db = Inr (example_db @ [example_low_market])"
  by (simp add: create_new_markets_low_voltage_def example_shares example_low')

subsection \<open>Exactly one production exchange\<close>

text \<open>
  C8. Every dataset that a market builder appends, one per scenario region and per voltage
  tier, has exactly one exchange of type \<open>production\<close>, and its amount is 1: the amounts
  of the production exchanges of the dataset are the list \<open>[1]\<close>.
\<close>

theorem one_production_exchange:
  "(create_new_markets_high_voltage e db = Inr dbh \<longrightarrow>
      (\<exists>new. dbh = db @ new \<and> map ds_location new = regions e
         \<and> (\<forall>ds \<in> set new. production_amounts ds = [Fin 1])))
   \<and> (create_new_markets_medium_voltage e db = Inr dbm \<longrightarrow>
      (\<exists>new. dbm = db @ new \<and> map ds_location new = regions e
         \<and> (\<forall>ds \<in> set new. production_amounts ds = [Fin 1])))
   \<and> (create_new_markets_low_voltage e db = Inr dbl \<longrightarrow>
      (\<exists>new. dbl = db @ new \<and> map ds_location new = regions e
         \<and> (\<forall>ds \<in> set new. production_amounts ds = [Fin 1])))"
  unfolding create_new_markets_high_voltage_def create_new_markets_medium_voltage_def
    create_new_markets_low_voltage_def
  by (intro conjI impI high_region_loop_new medium_region_loop_new low_region_loop_new)

theorem one_production_exchange_witness:
  "create_new_markets_high_voltage example_env example_db = Inr (example_db @ [example_high_market])
   \<and> create_new_markets_medium_voltage example_env example_db =
       Inr (example_db @ [example_medium_market])
   \<and> create_new_markets_low_voltage example_env example_db = Inr (example_db @ [example_low_market])
   \<and> production_amounts example_high_market = [Fin 1]
   \<and> production_amounts example_medium_market = [Fin 1]
   \<and> production_amounts example_low_market = [Fin 1]"
  using one_production_exchange [where e = example_env and db = example_db
      and dbh = "example_db @ [example_high_market]"
      and dbm = "example_db @ [example_medium_market]"
      and dbl = "example_db @ [example_low_market]"]
    example_create_high example_create_medium example_create_low
  by auto

subsection \<open>Allocation of a technology\<close>

lemma share_defined:
  "get_pop_weighted_share e s S = Inr share \<Longrightarrow>
   locs_population e S \<noteq> 0
   \<and> share = real_of_int (pop_of e (ds_location s)) / real_of_int (locs_population e S)"
  by (simp add: get_pop_weighted_share_def split: if_splits)

lemma supplier_loop_step:
  "supplier_loop e amount S (s # rest) = Inr xs \<Longrightarrow>
   \<exists>share ys. get_pop_weighted_share e s S = Inr share
     \<and> supplier_loop e amount S rest = Inr ys
     \<and> xs = supplier_exchange s (fmul amount (Fin share)) # ys"
  by (cases "get_pop_weighted_share e s S"; cases "supplier_loop e amount S rest") simp_all

lemma supplier_loop_sum:
  "supplier_loop e (Fin a) S rest = Inr xs \<Longrightarrow>
   fsum (map exc_amount xs) =
     Fin (a * real_of_int (locs_population e rest) / real_of_int (locs_population e S))"
proof (induction rest arbitrary: xs)
  case Nil
  then show ?case by (simp add: locs_population_def)
next
  case (Cons s rest)
  from supplier_loop_step [OF Cons.prems] obtain share ys where
    sh: "get_pop_weighted_share e s S = Inr share" and
    ys: "supplier_loop e (Fin a) S rest = Inr ys" and
    xs: "xs = supplier_exchange s (fmul (Fin a) (Fin share)) # ys"
    by (elim exE conjE)
  from share_defined [OF sh] have
    share: "share = real_of_int (pop_of e (ds_location s)) / real_of_int (locs_population e S)"
    by simp
  have "fsum (map exc_amount xs) =
      Fin (a * share + a * real_of_int (locs_population e rest) / real_of_int (locs_population e S))"
    unfolding xs by (simp add: Cons.IH [OF ys] supplier_exchange_def flow_exchange_def)
  also have "a * share + a * real_of_int (locs_population e rest) / real_of_int (locs_population e S)
      = a * real_of_int (locs_population e (s # rest)) / real_of_int (locs_population e S)"
    unfolding share by (simp add: locs_population_def distrib_left add_divide_distrib)
  finally show ?case .
qed

lemma supplier_loop_shape:
  "supplier_loop e amount S rest = Inr xs \<Longrightarrow>
   map (\<lambda>x. (exc_type x, exc_name x, exc_product x, exc_location x)) xs =
   map (\<lambda>s. (''technosphere'', ds_name s, Some (ds_reference_product s), Some (ds_location s))) rest"
proof (induction rest arbitrary: xs)
  case Nil
  then show ?case by simp
next
  case (Cons s rest)
  from supplier_loop_step [OF Cons.prems] obtain share ys where
    ys: "supplier_loop e amount S rest = Inr ys" and
    xs: "xs = supplier_exchange s (fmul amount (Fin share)) # ys"
    by (elim exE conjE)
  show ?case unfolding xs
    by (simp add: Cons.IH [OF ys] supplier_exchange_def flow_exchange_def)
qed

lemma supplier_loop_total:
  assumes "supplier_loop e (Fin a) S S = Inr xs" "S \<noteq> []"
  shows "fsum (map exc_amount xs) = Fin a"
proof -
  from assms(2) obtain s rest where S: "S = s # rest" by (cases S) auto
  from assms(1) have "supplier_loop e (Fin a) S (s # rest) = Inr xs" by (simp add: S)
  from supplier_loop_step [OF this] obtain share where
    "get_pop_weighted_share e s S = Inr share" by (elim exE conjE)
  from share_defined [OF this] have "locs_population e S \<noteq> 0" by simp
  with supplier_loop_sum [OF assms(1)] show ?thesis by simp
qed

lemma technology_exchanges_block:
  assumes "technology_exchanges e db locs r t = Inr blk" "electricity_markets e t r = Fin a"
  shows "\<exists>lbl names S.
      rev_electricity_market_labels e t = Some lbl \<and> powerplant_map e lbl = Some names
      \<and> resolve_suppliers db locs names = Inr S
      \<and> map (\<lambda>x. (exc_type x, exc_name x, exc_product x, exc_location x)) blk =
        map (\<lambda>s. (''technosphere'', ds_name s, Some (ds_reference_product s),
                   Some (ds_location s))) S
      \<and> (S \<noteq> [] \<longrightarrow> fsum (map exc_amount blk) = Fin a)"
proof -
  from assms(1) obtain lbl where lbl: "rev_electricity_market_labels e t = Some lbl"
    unfolding technology_exchanges_def Let_def
    by (cases "rev_electricity_market_labels e t") simp_all
  from assms(1) lbl obtain names where names: "powerplant_map e lbl = Some names"
    unfolding technology_exchanges_def Let_def
    by (cases "powerplant_map e lbl") simp_all
  from assms(1) lbl names obtain S where S: "resolve_suppliers db locs names = Inr S"
    unfolding technology_exchanges_def Let_def
    by (cases "resolve_suppliers db locs names") simp_all
  from assms lbl names S have loop: "supplier_loop e (Fin a) S S = Inr blk"
    unfolding technology_exchanges_def Let_def by simp
  from supplier_loop_shape [OF loop] supplier_loop_total [OF loop] lbl names S
  show ?thesis by blast
qed

lemma high_tech_loop_block:
  "high_tech_loop e db locs r ts = Inr xs \<Longrightarrow> t \<in> set ts \<Longrightarrow>
   electricity_markets e t r \<noteq> Fin 0 \<Longrightarrow>
   \<exists>pre blk post. xs = pre @ blk @ post \<and> technology_exchanges e db locs r t = Inr blk"
proof (induction ts arbitrary: xs)
  case Nil
  then show ?case by simp
next
  case (Cons u ts)
  show ?case
  proof (cases "electricity_markets e u r \<noteq> Fin 0")
    case True
    with Cons.prems(1) obtain ys zs where
      ys: "technology_exchanges e db locs r u = Inr ys" and
      zs: "high_tech_loop e db locs r ts = Inr zs" and xs: "xs = ys @ zs"
      by (cases "technology_exchanges e db locs r u"; cases "high_tech_loop e db locs r ts")
         simp_all
    show ?thesis
    proof (cases "t = u")
      case True
      with ys xs have "xs = [] @ ys @ zs \<and> technology_exchanges e db locs r t = Inr ys" by simp
      then show ?thesis by blast
    next
      case False
      with Cons.prems(2) have "t \<in> set ts" by simp
      from Cons.IH [OF zs this Cons.prems(3)] obtain pre blk post where
        "zs = pre @ blk @ post" "technology_exchanges e db locs r t = Inr blk" by blast
      with xs have "xs = (ys @ pre) @ blk @ post \<and> technology_exchanges e db locs r t = Inr blk"
        by simp
      then show ?thesis by blast
    qed
  next
    case False
    with Cons.prems(1) have zs: "high_tech_loop e db locs r ts = Inr xs" by simp
    from False Cons.prems(3) have "t \<noteq> u" by auto
    with Cons.prems(2) have "t \<in> set ts" by simp
    from Cons.IH [OF zs this Cons.prems(3)] show ?thesis .
  qed
qed

lemma low_tech_loop_block:
  "low_tech_loop e db r ts s = Inr (s', xs) \<Longrightarrow> t \<in> set ts \<Longrightarrow>
   electricity_markets e t r \<noteq> Fin 0 \<Longrightarrow>
   \<exists>pre blk post. xs = pre @ blk @ post
     \<and> technology_exchanges e db (snd (remind_to_ecoinvent_location e r)) r t = Inr blk"
proof (induction ts arbitrary: xs s)
  case Nil
  then show ?case by simp
next
  case (Cons u ts)
  let ?locs = "snd (remind_to_ecoinvent_location e r)"
  show ?case
  proof (cases "electricity_markets e u r \<noteq> Fin 0")
    case True
    let ?rest = "low_tech_loop e db r ts (fadd s (electricity_markets e u r))"
    from True Cons.prems(1) obtain ys zs where
      ys: "technology_exchanges e db ?locs r u = Inr ys" and
      zs: "?rest = Inr (s', zs)" and xs: "xs = ys @ zs"
      by (cases "technology_exchanges e db ?locs r u"; cases ?rest)
         (auto simp: Let_def)
    show ?thesis
    proof (cases "t = u")
      case True
      with ys xs have "xs = [] @ ys @ zs \<and> technology_exchanges e db ?locs r t = Inr ys" by simp
      then show ?thesis by blast
    next
      case False
      with Cons.prems(2) have "t \<in> set ts" by simp
      from Cons.IH [OF zs this Cons.prems(3)] obtain pre blk post where
        "zs = pre @ blk @ post" "technology_exchanges e db ?locs r t = Inr blk" by blast
      with xs have "xs = (ys @ pre) @ blk @ post \<and> technology_exchanges e db ?locs r t = Inr blk"
        by simp
      then show ?thesis by blast
    qed
  next
    case False
    with Cons.prems(1) have zs: "low_tech_loop e db r ts s = Inr (s', xs)" by simp
    from False Cons.prems(3) have "t \<noteq> u" by auto
    with Cons.prems(2) have "t \<in> set ts" by simp
    from Cons.IH [OF zs this Cons.prems(3)] show ?thesis .
  qed
qed

text \<open>
  C1, as the claim states it, fails: in the low voltage market of the example, the solar
  technology has the share 0.4 and one resolved supplier, whose reference product is
  \<open>electricity, low voltage\<close>; the technosphere exchanges of that product sum to 0.4298,
  since the market's own loss input (0.0298) carries the same product.
\<close>

theorem product_sum_counterexample:
  "built_product_amount ''electricity, low voltage''
     (low_voltage_dataset example_env example_db ''EUR'') = Inr (Fin (4298 / 10000))
   \<and> electricity_markets example_env ''Solar PV'' ''EUR'' = Fin (4 / 10)
   \<and> resolve_suppliers example_db (snd (remind_to_ecoinvent_location example_env ''EUR''))
        [''electricity production, photovoltaic''] = Inr [pv_DE]
   \<and> ds_reference_product pv_DE = ''electricity, low voltage''
   \<and> \<bar>4298 / 10000 - 4 / 10\<bar> > (1 / 10 ^ 9 :: real)"
proof -
  have "product_amount ''electricity, low voltage'' example_low_market = Fin (4298 / 10000)"
    by (simp add: product_amount_def example_low_market_def new_dataset_def
          production_exchange_def sf6_input_def sf6_emission_def flow_exchange_def
          supplier_exchange_def pv_DE_def plant_def)
  then have "built_product_amount ''electricity, low voltage''
     (low_voltage_dataset example_env example_db ''EUR'') = Inr (Fin (4298 / 10000))"
    by (simp add: built_product_amount_def example_low')
  moreover have "ds_reference_product pv_DE = ''electricity, low voltage''"
    by (simp add: pv_DE_def plant_def)
  ultimately show ?thesis
    by (simp add: example_shares example_locs example_pv_suppliers)
qed

text \<open>
  C1, amended. For a technology of non-zero finite share in a region (a non-solar one in the
  high voltage market, a solar one in the low voltage market) whose market dataset was
  built, the exchanges of the dataset contain, as one consecutive block, one technosphere
  exchange per resolved supplier of the technology, carrying the supplier's name,
  reference product and location; when there is at least one supplier, the amounts of the
  block sum to the share of the technology.
\<close>

theorem technology_share_allocated:
  "(high_voltage_dataset e db r = Inr ds \<and> \<not> contains_str ''Solar'' t
    \<or> low_voltage_dataset e db r = Inr ds \<and> contains_str ''Solar'' t)
   \<and> t \<in> set (variables e) \<and> electricity_markets e t r = Fin a \<and> a \<noteq> 0
   \<longrightarrow> (\<exists>pre blk post lbl names S.
         ds_exchanges ds = pre @ blk @ post
         \<and> rev_electricity_market_labels e t = Some lbl \<and> powerplant_map e lbl = Some names
         \<and> resolve_suppliers db (snd (remind_to_ecoinvent_location e r)) names = Inr S
         \<and> map (\<lambda>x. (exc_type x, exc_name x, exc_product x, exc_location x)) blk =
           map (\<lambda>s. (''technosphere'', ds_name s, Some (ds_reference_product s),
                      Some (ds_location s))) S
         \<and> (S \<noteq> [] \<longrightarrow> fsum (map exc_amount blk) = Fin a))"
proof (intro impI, elim conjE)
  let ?locs = "snd (remind_to_ecoinvent_location e r)"
  assume t: "t \<in> set (variables e)" and a: "electricity_markets e t r = Fin a" "a \<noteq> 0"
  assume tier: "high_voltage_dataset e db r = Inr ds \<and> \<not> contains_str ''Solar'' t
    \<or> low_voltage_dataset e db r = Inr ds \<and> contains_str ''Solar'' t"
  from a have nz: "electricity_markets e t r \<noteq> Fin 0" by simp
  have "\<exists>pre blk post. ds_exchanges ds = pre @ blk @ post
      \<and> technology_exchanges e db ?locs r t = Inr blk"
    using tier
  proof (elim disjE conjE)
    assume h: "high_voltage_dataset e db r = Inr ds" and ns: "\<not> contains_str ''Solar'' t"
    let ?loop = "high_tech_loop e db ?locs r
           (filter (\<lambda>tech. \<not> contains_str ''Solar'' tech) (variables e))"
    from h obtain xs where xs: "?loop = Inr xs" and
      ds: "ds = new_dataset e db ''high'' r (production_exchange e ''high'' r # xs)"
      unfolding high_voltage_dataset_def Let_def
      by (cases ?loop) (simp_all split: if_splits)
    from t ns have "t \<in> set (filter (\<lambda>tech. \<not> contains_str ''Solar'' tech) (variables e))"
      by simp
    from high_tech_loop_block [OF xs this nz] obtain pre blk post where
      b: "xs = pre @ blk @ post" "technology_exchanges e db ?locs r t = Inr blk" by blast
    from ds b have "ds_exchanges ds = (production_exchange e ''high'' r # pre) @ blk @ post
        \<and> technology_exchanges e db ?locs r t = Inr blk"
      by (simp add: new_dataset_def)
    then show ?thesis by blast
  next
    assume l: "low_voltage_dataset e db r = Inr ds" and so: "contains_str ''Solar'' t"
    from low_voltage_dataset_exchanges [OF l] obtain s xs where
      xs: "low_tech_loop e db r
           (filter (\<lambda>tech. contains_str ''Solar'' tech) (variables e)) (Fin 0) = Inr (s, xs)" and
      ds: "ds = new_dataset e db ''low'' r
           ([production_exchange e ''low'' r, sf6_input (Fin (299 / 10 ^ 11)),
            sf6_emission (Fin (299 / 10 ^ 11)),
            flow_exchange ''technosphere'' (Fin (874 / 10 ^ 10))
              ''distribution network, electricity, low voltage''
              ''distribution network construction, electricity, low voltage''
              ''kilometer'' ''RoW'']
           @ xs @
           [flow_exchange ''technosphere''
              (fmul (fsub (Fin 1) s) (Fin (10276 / 10000)))
              ''electricity, medium voltage'' (market_name e ''medium'') kwh r,
            flow_exchange ''technosphere'' (Fin (298 / 10000))
              ''electricity, low voltage'' (market_name e ''low'') kwh r])"
      by blast
    from t so have "t \<in> set (filter (\<lambda>tech. contains_str ''Solar'' tech) (variables e))"
      by simp
    from low_tech_loop_block [OF xs this nz] obtain pre blk post where
      b: "xs = pre @ blk @ post" "technology_exchanges e db ?locs r t = Inr blk" by blast
    have "ds_exchanges ds =
        ([production_exchange e ''low'' r, sf6_input (Fin (299 / 10 ^ 11)),
            sf6_emission (Fin (299 / 10 ^ 11)),
            flow_exchange ''technosphere'' (Fin (874 / 10 ^ 10))
              ''distribution network, electricity, low voltage''
              ''distribution network construction, electricity, low voltage''
              ''kilometer'' ''RoW''] @ pre) @ blk @
        (post @ [flow_exchange ''technosphere''
              (fmul (fsub (Fin 1) s) (Fin (10276 / 10000)))
              ''electricity, medium voltage'' (market_name e ''medium'') kwh r,
            flow_exchange ''technosphere'' (Fin (298 / 10000))
              ''electricity, low voltage'' (market_name e ''low'') kwh r])"
      unfolding ds b(1) by (simp add: new_dataset_def)
    with b(2) show ?thesis by blast
  qed
  then obtain pre blk post where
    split: "ds_exchanges ds = pre @ blk @ post" and
    blk: "technology_exchanges e db ?locs r t = Inr blk" by blast
  from technology_exchanges_block [OF blk a(1)] split show
    "\<exists>pre blk post lbl names S.
         ds_exchanges ds = pre @ blk @ post
         \<and> rev_electricity_market_labels e t = Some lbl \<and> powerplant_map e lbl = Some names
         \<and> resolve_suppliers db (snd (remind_to_ecoinvent_location e r)) names = Inr S
         \<and> map (\<lambda>x. (exc_type x, exc_name x, exc_product x, exc_location x)) blk =
           map (\<lambda>s. (''technosphere'', ds_name s, Some (ds_reference_product s),
                      Some (ds_location s))) S
         \<and> (S \<noteq> [] \<longrightarrow> fsum (map exc_amount blk) = Fin a)"
    by blast
qed


theorem technology_share_allocated_witness:
  "high_voltage_dataset example_env example_db ''EUR'' = Inr example_high_market
   \<and> ''Coal'' \<in> set (variables example_env) \<and> \<not> contains_str ''Solar'' ''Coal''
   \<and> electricity_markets example_env ''Coal'' ''EUR'' = Fin (6 / 10)
   \<and> (\<exists>pre blk post. ds_exchanges example_high_market = pre @ blk @ post
        \<and> map exc_name blk = map ds_name [coal_DE, coal_FR]
        \<and> fsum (map exc_amount blk) = Fin (6 / 10))
   \<and> low_voltage_dataset example_env example_db ''EUR'' = Inr example_low_market
   \<and> ''Solar PV'' \<in> set (variables example_env) \<and> contains_str ''Solar'' ''Solar PV''
   \<and> electricity_markets example_env ''Solar PV'' ''EUR'' = Fin (4 / 10)
   \<and> (\<exists>pre blk post. ds_exchanges example_low_market = pre @ blk @ post
        \<and> map exc_name blk = map ds_name [pv_DE]
        \<and> fsum (map exc_amount blk) = Fin (4 / 10))"
proof -
  have v': "''Solar PV'' \<in> set (variables example_env)" "contains_str ''Solar'' ''Solar PV''"
    by (simp_all add: example_env_def)
  have l': "rev_electricity_market_labels example_env ''Solar PV'' = Some ''Solar PV''"
      "powerplant_map example_env ''Solar PV'' = Some [''electricity production, photovoltaic'']"
    by (simp_all add: example_env_def)
  have hyp': "(high_voltage_dataset example_env example_db ''EUR'' = Inr example_low_market
      \<and> \<not> contains_str ''Solar'' ''Solar PV''
    \<or> low_voltage_dataset example_env example_db ''EUR'' = Inr example_low_market
      \<and> contains_str ''Solar'' ''Solar PV'')
   \<and> ''Solar PV'' \<in> set (variables example_env)
   \<and> electricity_markets example_env ''Solar PV'' ''EUR'' = Fin (4 / 10)
   \<and> (4 / 10 :: real) \<noteq> 0"
    using example_low' v' example_shares(2) by simp
  from mp [OF technology_share_allocated [where e = example_env and db = example_db
      and r = "''EUR''" and ds = example_low_market and t = "''Solar PV''" and a = "4 / 10"]
      hyp']
  obtain pre' blk' post' lbl' names' S' where
    s': "ds_exchanges example_low_market = pre' @ blk' @ post'" and
    n': "rev_electricity_market_labels example_env ''Solar PV'' = Some lbl'"
       "powerplant_map example_env lbl' = Some names'" and
    r': "resolve_suppliers example_db (snd (remind_to_ecoinvent_location example_env ''EUR''))
          names' = Inr S'" and
    m': "map (\<lambda>x. (exc_type x, exc_name x, exc_product x, exc_location x)) blk' =
           map (\<lambda>s. (''technosphere'', ds_name s, Some (ds_reference_product s),
                      Some (ds_location s))) S'" and
    f': "S' \<noteq> [] \<longrightarrow> fsum (map exc_amount blk') = Fin (4 / 10)"
    by (elim exE conjE)
  from n' l' have "names' = [''electricity production, photovoltaic'']" by simp
  with r' have S': "S' = [pv_DE]" by (simp add: example_locs example_pv_suppliers)
  from m' have "map (fst \<circ> snd)
      (map (\<lambda>x. (exc_type x, exc_name x, exc_product x, exc_location x)) blk')
    = map (fst \<circ> snd) (map (\<lambda>s. (''technosphere'', ds_name s, Some (ds_reference_product s),
                      Some (ds_location s))) S')" by simp
  then have "map exc_name blk' = map ds_name S'" by (simp add: comp_def)
  with s' f' S' have "ds_exchanges example_low_market = pre' @ blk' @ post'
        \<and> map exc_name blk' = map ds_name [pv_DE]
        \<and> fsum (map exc_amount blk') = Fin (4 / 10)" by simp
  then have low: "\<exists>pre blk post. ds_exchanges example_low_market = pre @ blk @ post
        \<and> map exc_name blk = map ds_name [pv_DE]
        \<and> fsum (map exc_amount blk) = Fin (4 / 10)" by blast
  have v: "''Coal'' \<in> set (variables example_env)" "\<not> contains_str ''Solar'' ''Coal''"
    by (simp_all add: example_env_def)
  have l: "rev_electricity_market_labels example_env ''Coal'' = Some ''Coal PC''"
      "powerplant_map example_env ''Coal PC'' = Some [''electricity production, hard coal'']"
    by (simp_all add: example_env_def)
  have hyp: "(high_voltage_dataset example_env example_db ''EUR'' = Inr example_high_market
      \<and> \<not> contains_str ''Solar'' ''Coal''
    \<or> low_voltage_dataset example_env example_db ''EUR'' = Inr example_high_market
      \<and> contains_str ''Solar'' ''Coal'')
   \<and> ''Coal'' \<in> set (variables example_env)
   \<and> electricity_markets example_env ''Coal'' ''EUR'' = Fin (6 / 10) \<and> (6 / 10 :: real) \<noteq> 0"
    using example_high' v example_shares(1) by simp
  from mp [OF technology_share_allocated [where e = example_env and db = example_db
      and r = "''EUR''" and ds = example_high_market and t = "''Coal''" and a = "6 / 10"] hyp]
  obtain pre blk post lbl names S where
    s: "ds_exchanges example_high_market = pre @ blk @ post" and
    n: "rev_electricity_market_labels example_env ''Coal'' = Some lbl"
       "powerplant_map example_env lbl = Some names" and
    r: "resolve_suppliers example_db (snd (remind_to_ecoinvent_location example_env ''EUR''))
          names = Inr S" and
    m: "map (\<lambda>x. (exc_type x, exc_name x, exc_product x, exc_location x)) blk =
           map (\<lambda>s. (''technosphere'', ds_name s, Some (ds_reference_product s),
                      Some (ds_location s))) S" and
    f: "S \<noteq> [] \<longrightarrow> fsum (map exc_amount blk) = Fin (6 / 10)"
    by (elim exE conjE)
  from n l have "names = [''electricity production, hard coal'']" by simp
  with r have S: "S = [coal_DE, coal_FR]" by (simp add: example_locs example_coal_suppliers)
  from m have "map (fst \<circ> snd) (map (\<lambda>x. (exc_type x, exc_name x, exc_product x, exc_location x)) blk)
    = map (fst \<circ> snd) (map (\<lambda>s. (''technosphere'', ds_name s, Some (ds_reference_product s),
                      Some (ds_location s))) S)" by simp
  then have "map exc_name blk = map ds_name S" by (simp add: comp_def)
  with s f S have "ds_exchanges example_high_market = pre @ blk @ post
        \<and> map exc_name blk = map ds_name [coal_DE, coal_FR]
        \<and> fsum (map exc_amount blk) = Fin (6 / 10)" by simp
  then have "\<exists>pre blk post. ds_exchanges example_high_market = pre @ blk @ post
        \<and> map exc_name blk = map ds_name [coal_DE, coal_FR]
        \<and> fsum (map exc_amount blk) = Fin (6 / 10)" by blast
  with example_high' v example_shares(1) example_low' v' example_shares(2) low
  show ?thesis by simp
qed

subsection \<open>Supplier resolution\<close>

lemma suppliers_at_set:
  "set (suppliers_at db locs techs) =
     {ds \<in> set db. ds_name ds \<in> set techs \<and> ds_location ds \<in> set locs
        \<and> ds_unit ds = ''kilowatt hour''}"
  by (auto simp: suppliers_at_def)

lemma resolve_suppliers_cascade:
  "resolve_suppliers db (LocList locs) techs =
     Inr (if suppliers_at db locs techs \<noteq> [] then suppliers_at db locs techs
          else if suppliers_at db [''RER''] techs \<noteq> [] then suppliers_at db [''RER''] techs
          else suppliers_at db [''RoW''] techs)"
  by (simp add: resolve_suppliers_def get_suppliers_of_a_region_def Let_def)

text \<open>
  C6. For the region World the resolved location is the string \<open>"GLO"\<close>, and the supplier
  search iterates over it: the locations tried first are \<open>G\<close>, \<open>L\<close> and \<open>O\<close>. A
  supplier located in \<open>GLO\<close> is therefore passed over, and the cascade returns the
  supplier of \<open>RER\<close>.
\<close>

theorem world_suppliers_skip_GLO:
  "remind_to_ecoinvent_location example_env ''World'' = ([], LocStr ''GLO'')
   \<and> iter_locs (LocStr ''GLO'') = Inr [''G'', ''L'', ''O'']
   \<and> resolve_suppliers world_db (LocStr ''GLO'') [''electricity production, hard coal'']
       = Inr [coal_RER]
   \<and> suppliers_at world_db [''GLO''] [''electricity production, hard coal''] = [coal_GLO]"
  by (simp add: remind_to_ecoinvent_location_def resolve_suppliers_def
        get_suppliers_of_a_region_def suppliers_at_def world_db_def coal_GLO_def coal_RER_def
        plant_def)

subsection \<open>Rescaling of the emissions\<close>

lemma example_region_DE:
  "ecoinvent_to_remind_location example_env ''DE'' = Inr ([], Some [''EUR''])"
  by (simp add: ecoinvent_to_remind_location_def example_env_def)

lemma nan_region_DE:
  "ecoinvent_to_remind_location nan_env ''DE'' = Inr ([], Some [''EUR''])"
  by (simp add: ecoinvent_to_remind_location_def nan_env_def example_env_def)

lemma example_is_emission:
  "\<not> is_emission example_env coal_output" "\<not> is_emission example_env hard_coal_input"
  "is_emission example_env (so2 a)"
  by (simp_all add: is_emission_def example_env_def coal_output_def hard_coal_input_def
        flow_exchange_def so2_def)

lemma example_rescale_emission:
  "rescale_emission example_env coal_DE ''Coal PC'' (so2 (Fin 0)) =
     Inr ([], rescale_exchange (so2 (Fin 0)) (Fin (42 / 1000)) True)"
  "rescale_emission example_env coal_DE ''Coal PC'' (so2 (Fin 2)) =
     Inr ([], rescale_exchange (so2 (Fin 2)) (Fin (21 / 1000)) True)"
proof -
  have l: "ds_location coal_DE = ''DE''" by (simp add: coal_DE_def plant_def)
  have e: "map_of (emissions_map example_env) (exc_name (so2 a)) = Some ''SO2''"
      "electricity_emission_labels example_env ''Coal PC'' = Some ''Power|Coal''"
      "emissions_lookup example_env (Some [''EUR'']) ''SO2'' ''Power|Coal'' = Inr [Fin (42 / 1000)]"
      "remove_uncertainty_default example_env = True"
    for a by (simp_all add: example_env_def so2_def)
  have a: "exc_amount (so2 a) = a" for a by (simp add: so2_def)
  show "rescale_emission example_env coal_DE ''Coal PC'' (so2 (Fin 0)) =
     Inr ([], rescale_exchange (so2 (Fin 0)) (Fin (42 / 1000)) True)"
    by (simp add: rescale_emission_def l e a example_region_DE)
  show "rescale_emission example_env coal_DE ''Coal PC'' (so2 (Fin 2)) =
     Inr ([], rescale_exchange (so2 (Fin 2)) (Fin (21 / 1000)) True)"
    by (simp add: rescale_emission_def l e a example_region_DE)
qed

text \<open>
  C2. The coal plant of the example has two emission exchanges named in the emission map,
  of amounts 0 and 2, and the target intensity is 0.042. The rescaler multiplies each
  amount by its factor: the exchange of amount 2 is multiplied by 0.042 / 2 and ends at
  the target, the exchange of amount 0 is multiplied by the target and stays 0: it does
  not end at the target.
\<close>

theorem zero_emission_stays_zero:
  "emissions_lookup example_env (Some [''EUR'']) ''SO2'' ''Power|Coal'' = Inr [Fin (42 / 1000)]
   \<and> ds_exchanges coal_DE = [coal_output, hard_coal_input, so2 (Fin 0), so2 (Fin 2)]
   \<and> exc_amount (so2 (Fin 0)) = Fin 0
   \<and> rescale_emissions example_env coal_DE ''Coal PC'' =
       Inr ([], coal_DE\<lparr>ds_exchanges :=
         [coal_output, hard_coal_input,
          rescale_exchange (so2 (Fin 0)) (Fin (42 / 1000)) True,
          rescale_exchange (so2 (Fin 2)) (Fin (21 / 1000)) True]\<rparr>)
   \<and> exc_amount (rescale_exchange (so2 (Fin 0)) (Fin (42 / 1000)) True) = Fin 0
   \<and> exc_amount (rescale_exchange (so2 (Fin 2)) (Fin (21 / 1000)) True) = Fin (42 / 1000)"
proof -
  have "rescale_emissions example_env coal_DE ''Coal PC'' =
       Inr ([], coal_DE\<lparr>ds_exchanges :=
         [coal_output, hard_coal_input,
          rescale_exchange (so2 (Fin 0)) (Fin (42 / 1000)) True,
          rescale_exchange (so2 (Fin 2)) (Fin (21 / 1000)) True]\<rparr>)"
    by (simp add: rescale_emissions_def coal_DE_exchanges example_is_emission
          example_rescale_emission)
  moreover have "emissions_lookup example_env (Some [''EUR'']) ''SO2'' ''Power|Coal'' =
      Inr [Fin (42 / 1000)]"
    by (simp add: example_env_def)
  moreover have "exc_amount (so2 (Fin 0)) = Fin 0" by (simp add: so2_def)
  moreover have "exc_amount (rescale_exchange (so2 (Fin 0)) (Fin (42 / 1000)) True) = Fin 0"
      "exc_amount (rescale_exchange (so2 (Fin 2)) (Fin (21 / 1000)) True) = Fin (42 / 1000)"
    by (simp_all add: rescale_exchange_def Let_def so2_def)
  ultimately show ?thesis
    by (simp add: coal_DE_exchanges)
qed

text \<open>
  C4, as the claim states it, fails: with a target intensity that is NaN the rescaler
  raises nothing; it prints the value and writes NaN into the exchange amount.
\<close>

theorem nan_emission_printed_counterexample:
  "emissions_lookup nan_env (Some [''EUR'']) ''SO2'' ''Power|Coal'' = Inr [NaN]
   \<and> rescale_emission nan_env coal_DE ''Coal PC'' (so2 (Fin 2)) =
       Inr ([NanEmission [NaN] ''SO2'' ''electricity production, hard coal''],
            rescale_exchange (so2 (Fin 2)) NaN True)
   \<and> exc_amount (rescale_exchange (so2 (Fin 2)) NaN True) = NaN"
proof -
  have l: "ds_location coal_DE = ''DE''" "ds_name coal_DE = ''electricity production, hard coal''"
    by (simp_all add: coal_DE_def plant_def)
  have e: "map_of (emissions_map nan_env) (exc_name (so2 a)) = Some ''SO2''"
      "electricity_emission_labels nan_env ''Coal PC'' = Some ''Power|Coal''"
      "emissions_lookup nan_env regs p s = Inr [NaN]"
      "remove_uncertainty_default nan_env = True"
    for a regs p s by (simp_all add: nan_env_def example_env_def so2_def)
  have a: "exc_amount (so2 a) = a" for a by (simp add: so2_def)
  show ?thesis
    by (simp add: rescale_emission_def l e a nan_region_DE rescale_exchange_def Let_def)
qed

lemma fmul_NaN: "fmul a NaN = NaN"
  by (cases a) simp_all

lemma fdiv_NaN: "fdiv NaN a = NaN"
  by (cases a) simp_all

text \<open>
  C4, amended. When the target emission intensity fetched for the region, pollutant and
  technology is NaN, the rescaler raises no error: it prints the value with the pollutant
  label and the dataset name, goes on, and the amount of the exchange becomes NaN.
\<close>

theorem nan_emission_printed:
  "map_of (emissions_map e) (exc_name exc) = Some label
   \<and> ecoinvent_to_remind_location e (ds_location ds) = Inr (d, regs)
   \<and> electricity_emission_labels e remind_technology = Some sector
   \<and> emissions_lookup e regs label sector = Inr [NaN]
   \<longrightarrow> (\<exists>exc'. rescale_emission e ds remind_technology exc =
               Inr (d @ [NanEmission [NaN] label (ds_name ds)], exc')
             \<and> exc_amount exc' = NaN)"
  by (simp add: rescale_emission_def rescale_exchange_def fmul_NaN fdiv_NaN Let_def)

theorem nan_emission_printed_witness:
  "map_of (emissions_map nan_env) (exc_name (so2 (Fin 0))) = Some ''SO2''
   \<and> ecoinvent_to_remind_location nan_env (ds_location coal_DE) = Inr ([], Some [''EUR''])
   \<and> electricity_emission_labels nan_env ''Coal PC'' = Some ''Power|Coal''
   \<and> emissions_lookup nan_env (Some [''EUR'']) ''SO2'' ''Power|Coal'' = Inr [NaN]
   \<and> (\<exists>exc'. rescale_emission nan_env coal_DE ''Coal PC'' (so2 (Fin 0)) =
               Inr ([NanEmission [NaN] ''SO2'' (ds_name coal_DE)], exc')
             \<and> exc_amount exc' = NaN)"
proof -
  have l: "ds_location coal_DE = ''DE''" by (simp add: coal_DE_def plant_def)
  have hyp: "map_of (emissions_map nan_env) (exc_name (so2 (Fin 0))) = Some ''SO2''
   \<and> ecoinvent_to_remind_location nan_env (ds_location coal_DE) = Inr ([], Some [''EUR''])
   \<and> electricity_emission_labels nan_env ''Coal PC'' = Some ''Power|Coal''
   \<and> emissions_lookup nan_env (Some [''EUR'']) ''SO2'' ''Power|Coal'' = Inr [NaN]"
    by (simp add: l nan_region_DE) (simp add: nan_env_def example_env_def so2_def)
  from mp [OF nan_emission_printed [where e = nan_env and exc = "so2 (Fin 0)"
      and label = "''SO2''" and ds = coal_DE and d = "[]" and regs = "Some [''EUR'']"
      and remind_technology = "''Coal PC''" and sector = "''Power|Coal''"] hyp] hyp
  show ?thesis by simp
qed

subsection \<open>Relinking\<close>

lemma tier_mentions:
  "contains_str ''high'' ''electricity, high voltage''"
  "\<not> contains_str ''medium'' ''electricity, high voltage''"
  "\<not> contains_str ''low'' ''electricity, high voltage''"
  "\<not> contains_str ''high'' ''electricity, medium voltage''"
  "contains_str ''medium'' ''electricity, medium voltage''"
  "\<not> contains_str ''low'' ''electricity, medium voltage''"
  "\<not> contains_str ''high'' ''electricity, low voltage''"
  "\<not> contains_str ''medium'' ''electricity, low voltage''"
  "contains_str ''low'' ''electricity, low voltage''"
  by simp_all

lemma relink_tier_settled:
  assumes "settled e exc" "t \<in> set [''high'', ''medium'', ''low'']"
  shows "relink_tier e t exc = Inr exc"
proof -
  from assms(1) obtain tier where
    tier: "tier \<in> set [''high'', ''medium'', ''low'']" and
    nm: "exc_name exc = market_name e tier" and
    pr: "exc_product exc = Some (''electricity, '' @ tier @ '' voltage'')"
    unfolding settled_def by blast
  from assms(1) obtain r where r: "exc_location exc = Some r"
    unfolding settled_def by (cases "exc_location exc") simp_all
  from assms(1) r obtain d rs where
    loc: "ecoinvent_to_remind_location e r = Inr (d, Some (r # rs))"
    unfolding settled_def
    by (auto split: sum.splits option.splits list.splits)
  show ?thesis
  proof (cases "t = tier")
    case True
    from tier have "contains_str tier (''electricity, '' @ tier @ '' voltage'')"
      by (auto simp: tier_mentions)
    with True nm pr r loc show ?thesis
      by (simp add: relink_tier_def)
  next
    case False
    with tier assms(2) have "\<not> contains_str t (''electricity, '' @ tier @ '' voltage'')"
      by (auto simp: tier_mentions)
    with pr show ?thesis by (simp add: relink_tier_def)
  qed
qed

lemma relink_exchange_settled:
  assumes "exc_type exc \<noteq> ''production'' \<and> exc_unit exc = ''kilowatt hour'' \<longrightarrow> settled e exc"
  shows "relink_exchange e exc = Inr exc"
proof (cases "exc_type exc \<noteq> ''production'' \<and> exc_unit exc = ''kilowatt hour''")
  case True
  with assms have "settled e exc" by simp
  then have "relink_tier e ''high'' exc = Inr exc" "relink_tier e ''medium'' exc = Inr exc"
      "relink_tier e ''low'' exc = Inr exc"
    by (simp_all add: relink_tier_settled)
  then show ?thesis by (simp add: relink_exchange_def)
next
  case False
  then show ?thesis by (auto simp: relink_exchange_def)
qed

lemma map_err_id: "\<forall>x \<in> set xs. f x = Inr x \<Longrightarrow> map_err f xs = Inr xs"
  by (induction xs) simp_all

lemma relink_dataset_settled:
  assumes "\<not> contains_str ''market group for electricity'' (ds_name ds) \<longrightarrow>
     (\<forall>exc \<in> set (ds_exchanges ds).
        exc_type exc \<noteq> ''production'' \<and> exc_unit exc = ''kilowatt hour'' \<longrightarrow> settled e exc)"
  shows "relink_dataset e ds = Inr ds"
proof (cases "contains_str ''market group for electricity'' (ds_name ds)")
  case True
  then show ?thesis by (simp add: relink_dataset_def)
next
  case False
  with assms have "\<forall>exc \<in> set (ds_exchanges ds). relink_exchange e exc = Inr exc"
    by (simp add: relink_exchange_settled)
  then have "map_err (relink_exchange e) (ds_exchanges ds) = Inr (ds_exchanges ds)"
    by (rule map_err_id)
  with False show ?thesis by (simp add: relink_dataset_def)
qed

lemma example_market_name:
  "market_name example_env ''high'' = ''market group for electricity, high voltage, SSP2, 2030''"
  "market_name stable_env ''high'' = ''market group for electricity, high voltage, SSP2, 2030''"
  by (simp_all add: market_name_def example_env_def stable_env_def)

lemma example_region_EUR:
  "ecoinvent_to_remind_location example_env ''EUR'' = Inl KeyError"
  by (simp add: ecoinvent_to_remind_location_def example_env_def)

lemma stable_region_EUR:
  "ecoinvent_to_remind_location stable_env ''EUR'' = Inr ([], Some [''EUR''])"
  by (simp add: ecoinvent_to_remind_location_def stable_env_def example_env_def)

text \<open>
  C5, as the claim states it, fails: the consumer of the example is relinked by a first
  run (its electricity input now references the high voltage market of \<open>EUR\<close>); a
  second run selects the same exchange again, asks the reverse region mapping for the
  region of \<open>EUR\<close>, which the geomatcher does not know, and ends in \<open>KeyError\<close>.
\<close>

theorem relink_twice_counterexample:
  "relink_activities_to_new_markets example_env [consumer_DE] = Inr [relinked_consumer]
   \<and> relink_activities_to_new_markets example_env [relinked_consumer] = Inl KeyError"
proof -
  have n: "\<not> contains_str ''market group for electricity'' ''steel production''" by simp
  have 1: "relink_exchange example_env
      (flow_exchange ''technosphere'' (Fin (1 / 2)) ''electricity, high voltage''
        ''market for electricity, high voltage'' ''kilowatt hour'' ''DE'') =
      Inr (flow_exchange ''technosphere'' (Fin (1 / 2)) ''electricity, high voltage''
        (market_name example_env ''high'') ''kilowatt hour'' ''EUR'')"
    by (simp add: relink_exchange_def relink_tier_def flow_exchange_def example_region_DE
          tier_mentions)
  have 2: "relink_exchange example_env
      (flow_exchange ''technosphere'' (Fin (1 / 2)) ''electricity, high voltage''
        (market_name example_env ''high'') ''kilowatt hour'' ''EUR'') = Inl KeyError"
    by (simp add: relink_exchange_def relink_tier_def flow_exchange_def example_region_EUR
          tier_mentions)
  show ?thesis
    by (simp add: relink_activities_to_new_markets_def relink_dataset_def consumer_DE_def
          relinked_consumer_def plant_def n 1 2)
qed

text \<open>
  C5, amended. A run of the relinking engine changes no record when every exchange it
  selects (not a production exchange, unit kilowatt hour, in a record that is not a market
  group) already references a synthesized tier market and carries a location that the
  reverse region mapping sends to a list headed by that same location.
\<close>

theorem relink_settled_noop:
  "(\<forall>ds \<in> set db. \<not> contains_str ''market group for electricity'' (ds_name ds) \<longrightarrow>
      (\<forall>exc \<in> set (ds_exchanges ds).
         exc_type exc \<noteq> ''production'' \<and> exc_unit exc = ''kilowatt hour'' \<longrightarrow> settled e exc))
   \<longrightarrow> relink_activities_to_new_markets e db = Inr db"
  unfolding relink_activities_to_new_markets_def
  by (intro impI map_err_id ballI relink_dataset_settled) blast

theorem relink_settled_noop_witness:
  "settled stable_env
     (flow_exchange ''technosphere'' (Fin (1 / 2)) ''electricity, high voltage''
        (market_name example_env ''high'') ''kilowatt hour'' ''EUR'')
   \<and> relink_activities_to_new_markets stable_env [relinked_consumer] = Inr [relinked_consumer]"
proof -
  have s: "settled stable_env
     (flow_exchange ''technosphere'' (Fin (1 / 2)) ''electricity, high voltage''
        (market_name example_env ''high'') ''kilowatt hour'' ''EUR'')"
    by (simp add: settled_def flow_exchange_def stable_region_EUR example_market_name)
  have "\<forall>ds \<in> set [relinked_consumer].
      \<not> contains_str ''market group for electricity'' (ds_name ds) \<longrightarrow>
      (\<forall>exc \<in> set (ds_exchanges ds).
         exc_type exc \<noteq> ''production'' \<and> exc_unit exc = ''kilowatt hour'' \<longrightarrow>
         settled stable_env exc)"
    using s by (simp add: relinked_consumer_def plant_def)
  from mp [OF relink_settled_noop [where e = stable_env and db = "[relinked_consumer]"] this] s
  show ?thesis by simp
qed


subsection \<open>Efficiency of a power plant\<close>

lemma fadd_commute: "fadd a b = fadd b a"
  by (cases a; cases b) auto

lemma fadd_assoc: "fadd (fadd a b) c = fadd a (fadd b c)"
  by (cases a; cases b; cases c) auto

lemma fadd_left_commute: "fadd a (fadd b c) = fadd b (fadd a c)"
  by (cases a; cases b; cases c) auto

lemma fadd_zero: "fadd (Fin 0) a = a" "fadd a (Fin 0) = a"
  by (cases a; simp)+

lemma fsum_append: "fsum (xs @ ys) = fadd (fsum xs) (fsum ys)"
  by (induction xs) (simp_all add: fadd_zero fadd_assoc)

lemma fsum_concat_split:
  "fsum (concat (map (\<lambda>x. h x @ r x) xs)) =
     fadd (fsum (concat (map h xs))) (fsum (concat (map r xs)))"
  by (induction xs)
     (simp_all add: fadd_zero fsum_append fadd_assoc fadd_commute fadd_left_commute)

lemma fsum_concat_filter:
  "fsum (concat (map (\<lambda>x. if P x then [g x] else []) xs)) = fsum (map g (filter P xs))"
  by (induction xs) simp_all

lemma fsum_swap:
  "fsum (concat (map (\<lambda>k. map (g k) (filter (P k) xs)) ks)) =
   fsum (concat (map (\<lambda>x. map (\<lambda>k. g k x) (filter (\<lambda>k. P k x) ks)) xs))"
proof (induction ks)
  case Nil
  have "fsum (concat (map (\<lambda>x. []) xs)) = Fin 0" by (induction xs) simp_all
  then show ?case by simp
next
  case (Cons k ks)
  have "fsum (concat (map (\<lambda>x. map (\<lambda>k. g k x) (filter (\<lambda>k. P k x) (k # ks))) xs)) =
      fsum (concat (map (\<lambda>x. (if P k x then [g k x] else [])
                              @ map (\<lambda>k. g k x) (filter (\<lambda>k. P k x) ks)) xs))"
    by (rule arg_cong [where f = "\<lambda>f. fsum (concat (map f xs))"]) auto
  also have "\<dots> = fadd (fsum (map (g k) (filter (P k) xs)))
      (fsum (concat (map (\<lambda>x. map (\<lambda>k. g k x) (filter (\<lambda>k. P k x) ks)) xs)))"
    by (simp add: fsum_concat_split fsum_concat_filter)
  finally show ?case by (simp add: fsum_append Cons.IH)
qed

lemma lhv_energy_input_spec:
  "lhv_energy_input e ds fuel_filters =
     spec_energy_input (fuels_lhv e) (technosphere ds fuel_filters)"
  unfolding lhv_energy_input_def spec_energy_input_def case_prod_beta
  by (rule fsum_swap [where g = "\<lambda>kv exc. fmul (Fin (snd kv / (36 / 10))) (exc_amount exc)"
        and P = "\<lambda>kv exc. contains_str (fst kv) (exc_name exc)"])

lemma coal_DE_fuel:
  "technosphere coal_DE coal_fuel_filters = [hard_coal_input]"
  "technosphere carma_coal_DE coal_fuel_filters = [hard_coal_input]"
  by (simp_all add: technosphere_def get_many_def coal_DE_exchanges coal_fuel_filters_def
        coal_output_def hard_coal_input_def flow_exchange_def so2_def)

lemma coal_DE_reference_product:
  "reference_product coal_DE = Inr coal_output"
  "reference_product carma_coal_DE = Inr coal_output"
  by (simp_all add: reference_product_def coal_DE_exchanges
        coal_output_def hard_coal_input_def flow_exchange_def so2_def)

lemma coal_DE_energy:
  "spec_energy_input (fuels_lhv example_env) [hard_coal_input] = Fin (89 / 30)"
  "fsum (map (\<lambda>exc. fdiv (exc_amount exc) (Fin (36 / 10))) [hard_coal_input]) = Fin (1 / 9)"
  by (simp_all add: spec_energy_input_def example_env_def hard_coal_input_def flow_exchange_def)

lemma coal_DE_database:
  "contains_str ''ecoinvent'' (ds_database coal_DE)"
  "contains_str ''ecoinvent'' (ds_database rated_coal_DE)"
  "\<not> contains_str ''ecoinvent'' (ds_database carma_coal_DE)"
  by (simp_all add: coal_DE_def rated_coal_DE_def carma_coal_DE_def plant_def)

lemma coal_DE_parameters:
  "ds_parameters coal_DE = Some []"
  "ds_parameters rated_coal_DE =
     Some [(''thermal efficiency'', Fin (9 / 10)), (''efficiency'', Fin (38 / 100))]"
  by (simp_all add: coal_DE_def rated_coal_DE_def plant_def)

lemma example_efficiency_keys:
  "efficiency_key ''efficiency''" "\<not> efficiency_key ''thermal efficiency''"
  by (simp_all add: efficiency_key_def)

text \<open>
  C9. For a dataset of an ecoinvent database, \<open>find_ecoinvent_fuel_efficiency\<close> returns
  an explicit parameter whose name contains \<open>efficiency\<close> and not \<open>thermal\<close> when there
  is one; otherwise it returns the amount of the reference product divided by the energy
  input, the sum over the fuel exchanges of (lower heating value of the fuel found in the
  exchange's name \<open>\<div>\<close> 3.6) \<open>\<times>\<close> amount. For a dataset of any other database it
  always derives the efficiency, the energy input being the sum of amount \<open>\<div>\<close> 3.6 over
  the fuel exchanges, with no lookup of a heating value.
\<close>

theorem efficiency_read_or_derived:
  "(contains_str ''ecoinvent'' (ds_database ds) \<and> ds_parameters ds = Some params
      \<and> (\<exists>key \<in> set (map fst params). efficiency_key key)
    \<longrightarrow> (\<exists>key v. efficiency_key key \<and> map_of params key = Some v
           \<and> find_ecoinvent_fuel_efficiency e ds fuel_filters = Inr (v, ds)))
   \<and> (contains_str ''ecoinvent'' (ds_database ds) \<and> ds_parameters ds = Some params
      \<and> (\<forall>key \<in> set (map fst params). \<not> efficiency_key key)
      \<and> reference_product ds = Inr rp
    \<longrightarrow> (\<exists>ds'. find_ecoinvent_fuel_efficiency e ds fuel_filters =
           Inr (fdiv (exc_amount rp)
                  (spec_energy_input (fuels_lhv e) (technosphere ds fuel_filters)), ds')))
   \<and> (\<not> contains_str ''ecoinvent'' (ds_database ds) \<and> reference_product ds = Inr rp
    \<longrightarrow> (\<exists>ds'. find_ecoinvent_fuel_efficiency e ds fuel_filters =
           Inr (fdiv (exc_amount rp)
                  (fsum (map (\<lambda>exc. fdiv (exc_amount exc) (Fin (36 / 10)))
                     (technosphere ds fuel_filters))), ds')))"
proof (intro conjI impI; elim conjE)
  let ?keys = "filter (\<lambda>key. contains_str ''efficiency'' key \<and> \<not> contains_str ''thermal'' key)
                 (map fst params)"
  {
    assume eco: "contains_str ''ecoinvent'' (ds_database ds)"
      and ps: "ds_parameters ds = Some params"
      and ex: "\<exists>key \<in> set (map fst params). efficiency_key key"
    from ex have "?keys \<noteq> []" by (auto simp: filter_empty_conv efficiency_key_def)
    then obtain k ks where k: "?keys = k # ks" by (cases ?keys) auto
    then have "k \<in> set ?keys" by simp
    then have kk: "efficiency_key k" and km: "k \<in> fst ` set params"
      by (auto simp: efficiency_key_def)
    from km obtain v where v: "map_of params k = Some v"
      by (cases "map_of params k") (auto simp: map_of_eq_None_iff)
    from eco ps k v have "find_ecoinvent_fuel_efficiency e ds fuel_filters = Inr (v, ds)"
      by (simp add: find_ecoinvent_fuel_efficiency_def)
    with kk v show "\<exists>key v. efficiency_key key \<and> map_of params key = Some v
           \<and> find_ecoinvent_fuel_efficiency e ds fuel_filters = Inr (v, ds)" by blast
  }
  {
    assume eco: "contains_str ''ecoinvent'' (ds_database ds)"
      and ps: "ds_parameters ds = Some params"
      and no: "\<forall>key \<in> set (map fst params). \<not> efficiency_key key"
      and rp: "reference_product ds = Inr rp"
    from no have "?keys = []" by (auto simp: filter_empty_conv efficiency_key_def)
    with eco ps rp show "\<exists>ds'. find_ecoinvent_fuel_efficiency e ds fuel_filters =
           Inr (fdiv (exc_amount rp)
                  (spec_energy_input (fuels_lhv e) (technosphere ds fuel_filters)), ds')"
      by (simp add: find_ecoinvent_fuel_efficiency_def Let_def lhv_energy_input_spec)
  }
  {
    assume "\<not> contains_str ''ecoinvent'' (ds_database ds)" "reference_product ds = Inr rp"
    then show "\<exists>ds'. find_ecoinvent_fuel_efficiency e ds fuel_filters =
           Inr (fdiv (exc_amount rp)
                  (fsum (map (\<lambda>exc. fdiv (exc_amount exc) (Fin (36 / 10)))
                     (technosphere ds fuel_filters))), ds')"
      by (simp add: find_ecoinvent_fuel_efficiency_def Let_def plain_energy_input_def)
  }
qed

theorem efficiency_read_or_derived_witness:
  "find_ecoinvent_fuel_efficiency example_env rated_coal_DE coal_fuel_filters =
     Inr (Fin (38 / 100), rated_coal_DE)
   \<and> (\<exists>ds'. find_ecoinvent_fuel_efficiency example_env coal_DE coal_fuel_filters =
         Inr (Fin (30 / 89), ds'))
   \<and> (\<exists>ds'. find_ecoinvent_fuel_efficiency example_env carma_coal_DE coal_fuel_filters =
         Inr (Fin 9, ds'))"
proof -
  let ?params = "[(''thermal efficiency'', Fin (9 / 10)), (''efficiency'', Fin (38 / 100))]"
  have h1: "contains_str ''ecoinvent'' (ds_database rated_coal_DE)
      \<and> ds_parameters rated_coal_DE = Some ?params
      \<and> (\<exists>key \<in> set (map fst ?params). efficiency_key key)"
    using coal_DE_database(2) coal_DE_parameters(2) example_efficiency_keys(1) by simp
  from mp [OF conjunct1 [OF efficiency_read_or_derived [where e = example_env
      and ds = rated_coal_DE and params = ?params and fuel_filters = coal_fuel_filters]] h1]
  obtain key v where kv: "efficiency_key key" "map_of ?params key = Some v" and
    f: "find_ecoinvent_fuel_efficiency example_env rated_coal_DE coal_fuel_filters =
          Inr (v, rated_coal_DE)"
    by (elim exE conjE)
  from kv example_efficiency_keys(2) have "v = Fin (38 / 100)"
    by (cases "key = ''thermal efficiency''") (auto split: if_splits)
  with f have 1: "find_ecoinvent_fuel_efficiency example_env rated_coal_DE coal_fuel_filters =
     Inr (Fin (38 / 100), rated_coal_DE)" by simp
  have h2: "contains_str ''ecoinvent'' (ds_database coal_DE) \<and> ds_parameters coal_DE = Some []
      \<and> (\<forall>key \<in> set (map fst ([] :: (string \<times> pyfloat) list)). \<not> efficiency_key key)
      \<and> reference_product coal_DE = Inr coal_output"
    using coal_DE_database(1) coal_DE_parameters(1) coal_DE_reference_product(1) by simp
  from mp [OF conjunct1 [OF conjunct2 [OF efficiency_read_or_derived [where e = example_env
      and ds = coal_DE and params = "[]" and fuel_filters = coal_fuel_filters
      and rp = coal_output]]] h2]
  have 2: "\<exists>ds'. find_ecoinvent_fuel_efficiency example_env coal_DE coal_fuel_filters =
         Inr (Fin (30 / 89), ds')"
    by (simp add: coal_DE_fuel coal_DE_energy coal_output_def flow_exchange_def)
  have h3: "\<not> contains_str ''ecoinvent'' (ds_database carma_coal_DE)
      \<and> reference_product carma_coal_DE = Inr coal_output"
    using coal_DE_database(3) coal_DE_reference_product(2) by simp
  from mp [OF conjunct2 [OF conjunct2 [OF efficiency_read_or_derived [where e = example_env
      and ds = carma_coal_DE and fuel_filters = coal_fuel_filters and rp = coal_output]]] h3]
  have 3: "\<exists>ds'. find_ecoinvent_fuel_efficiency example_env carma_coal_DE coal_fuel_filters =
         Inr (Fin 9, ds')"
    by (simp add: coal_DE_fuel hard_coal_input_def coal_output_def flow_exchange_def)
  from 1 2 3 show ?thesis by simp
qed

subsection \<open>Removal of the old electricity markets\<close>

lemma high_voltage_dataset_name:
  assumes "high_voltage_dataset e db r = Inr ds"
  shows "ds_name ds = market_name e ''high''"
proof -
  let ?loop = "high_tech_loop e db (snd (remind_to_ecoinvent_location e r)) r
           (filter (\<lambda>tech. \<not> contains_str ''Solar'' tech) (variables e))"
  from assms show ?thesis
    unfolding high_voltage_dataset_def Let_def
    by (cases ?loop) (auto split: if_splits simp: new_dataset_def)
qed

lemma medium_voltage_dataset_name:
  assumes "medium_voltage_dataset e db r = Inr ds"
  shows "ds_name ds = market_name e ''medium''"
  using assms unfolding medium_voltage_dataset_def
  by (auto split: if_splits simp: new_dataset_def)

lemma low_voltage_dataset_name:
  assumes "low_voltage_dataset e db r = Inr ds"
  shows "ds_name ds = market_name e ''low''"
proof -
  from low_voltage_dataset_exchanges [OF assms] obtain xs where
    "ds = new_dataset e db ''low'' r xs" by blast
  then show ?thesis by (simp add: new_dataset_def)
qed

lemma extend_names:
  assumes "db' = (db @ [ds]) @ new" "map ds_name new = replicate n nm" "ds_name ds = nm"
  shows "\<exists>new. db' = db @ new \<and> map ds_name new = replicate (Suc n) nm"
proof (intro exI conjI)
  show "db' = db @ (ds # new)" using assms(1) by simp
  show "map ds_name (ds # new) = replicate (Suc n) nm" using assms(2,3) by simp
qed

lemma high_region_loop_names:
  "high_region_loop e rs db = Inr db' \<Longrightarrow>
   \<exists>new. db' = db @ new \<and> map ds_name new = replicate (length rs) (market_name e ''high'')"
proof (induction rs arbitrary: db)
  case Nil
  then show ?case by simp
next
  case (Cons r rs)
  from high_region_loop_step [OF Cons.prems] obtain ds where
    ds: "high_voltage_dataset e db r = Inr ds" and
    rest: "high_region_loop e rs (db @ [ds]) = Inr db'"
    by (elim exE conjE)
  from Cons.IH [OF rest] obtain new where
    n: "db' = (db @ [ds]) @ new"
       "map ds_name new = replicate (length rs) (market_name e ''high'')"
    by (elim exE conjE)
  from extend_names [OF n high_voltage_dataset_name [OF ds]] show ?case by simp
qed

lemma medium_region_loop_names:
  "medium_region_loop e rs db = Inr db' \<Longrightarrow>
   \<exists>new. db' = db @ new \<and> map ds_name new = replicate (length rs) (market_name e ''medium'')"
proof (induction rs arbitrary: db)
  case Nil
  then show ?case by simp
next
  case (Cons r rs)
  from medium_region_loop_step [OF Cons.prems] obtain ds where
    ds: "medium_voltage_dataset e db r = Inr ds" and
    rest: "medium_region_loop e rs (db @ [ds]) = Inr db'"
    by (elim exE conjE)
  from Cons.IH [OF rest] obtain new where
    n: "db' = (db @ [ds]) @ new"
       "map ds_name new = replicate (length rs) (market_name e ''medium'')"
    by (elim exE conjE)
  from extend_names [OF n medium_voltage_dataset_name [OF ds]] show ?case by simp
qed

lemma low_region_loop_names:
  "low_region_loop e rs db = Inr db' \<Longrightarrow>
   \<exists>new. db' = db @ new \<and> map ds_name new = replicate (length rs) (market_name e ''low'')"
proof (induction rs arbitrary: db)
  case Nil
  then show ?case by simp
next
  case (Cons r rs)
  from low_region_loop_step [OF Cons.prems] obtain ds where
    ds: "low_voltage_dataset e db r = Inr ds" and
    rest: "low_region_loop e rs (db @ [ds]) = Inr db'"
    by (elim exE conjE)
  from Cons.IH [OF rest] obtain new where
    n: "db' = (db @ [ds]) @ new"
       "map ds_name new = replicate (length rs) (market_name e ''low'')"
    by (elim exE conjE)
  from extend_names [OF n low_voltage_dataset_name [OF ds]] show ?case by simp
qed

lemma relink_dataset_name:
  "relink_dataset e ds = Inr ds' \<Longrightarrow> ds_name ds' = ds_name ds"
  unfolding relink_dataset_def
  by (cases "map_err (relink_exchange e) (ds_exchanges ds)") (auto split: if_splits)

lemma map_err_step:
  "map_err f (x # xs) = Inr zs \<Longrightarrow>
   \<exists>y ys. f x = Inr y \<and> map_err f xs = Inr ys \<and> zs = y # ys"
  by (cases "f x"; cases "map_err f xs") simp_all

lemma relink_names:
  "map_err (relink_dataset e) db = Inr out \<Longrightarrow> map ds_name out = map ds_name db"
proof (induction db arbitrary: out)
  case Nil
  then show ?case by simp
next
  case (Cons ds db)
  from map_err_step [OF Cons.prems] obtain y ys where
    y: "relink_dataset e ds = Inr y" and ys: "map_err (relink_dataset e) db = Inr ys"
    and out: "out = y # ys" by (elim exE conjE)
  from relink_dataset_name [OF y] Cons.IH [OF ys] out show ?case by simp
qed

lemma remove_old_markets_idem: "remove_old_markets (remove_old_markets db) = remove_old_markets db"
  by (simp add: remove_old_markets_def)

lemma update_electricity_markets_chain:
  assumes "update_electricity_markets e db = Inr out"
  shows "\<exists>db1 db2 db3.
      create_new_markets_high_voltage e (remove_old_markets db) = Inr db1
      \<and> create_new_markets_medium_voltage e db1 = Inr db2
      \<and> create_new_markets_low_voltage e db2 = Inr db3
      \<and> relink_activities_to_new_markets e db3 = Inr out"
proof -
  from assms obtain db1 where
    1: "create_new_markets_high_voltage e (remove_old_markets db) = Inr db1"
    unfolding update_electricity_markets_def
    by (cases "create_new_markets_high_voltage e (remove_old_markets db)") simp_all
  from assms 1 obtain db2 where 2: "create_new_markets_medium_voltage e db1 = Inr db2"
    unfolding update_electricity_markets_def
    by (cases "create_new_markets_medium_voltage e db1") simp_all
  from assms 1 2 obtain db3 where 3: "create_new_markets_low_voltage e db2 = Inr db3"
    unfolding update_electricity_markets_def
    by (cases "create_new_markets_low_voltage e db2") simp_all
  from assms 1 2 3 have "relink_activities_to_new_markets e db3 = Inr out"
    unfolding update_electricity_markets_def by simp
  with 1 2 3 show ?thesis by blast
qed

lemma update_electricity_markets_names:
  assumes "update_electricity_markets e db = Inr out"
  shows "map ds_name out =
     map ds_name (remove_old_markets db)
     @ replicate (length (regions e)) (market_name e ''high'')
     @ replicate (length (regions e)) (market_name e ''medium'')
     @ replicate (length (regions e)) (market_name e ''low'')"
proof -
  from update_electricity_markets_chain [OF assms] obtain db1 db2 db3 where
    1: "create_new_markets_high_voltage e (remove_old_markets db) = Inr db1" and
    2: "create_new_markets_medium_voltage e db1 = Inr db2" and
    3: "create_new_markets_low_voltage e db2 = Inr db3" and
    4: "relink_activities_to_new_markets e db3 = Inr out" by blast
  from 1 high_region_loop_names obtain n1 where
    n1: "db1 = remove_old_markets db @ n1"
        "map ds_name n1 = replicate (length (regions e)) (market_name e ''high'')"
    unfolding create_new_markets_high_voltage_def by blast
  from 2 medium_region_loop_names obtain n2 where
    n2: "db2 = db1 @ n2"
        "map ds_name n2 = replicate (length (regions e)) (market_name e ''medium'')"
    unfolding create_new_markets_medium_voltage_def by blast
  from 3 low_region_loop_names obtain n3 where
    n3: "db3 = db2 @ n3"
        "map ds_name n3 = replicate (length (regions e)) (market_name e ''low'')"
    unfolding create_new_markets_low_voltage_def by blast
  from 4 have "map ds_name out = map ds_name db3"
    unfolding relink_activities_to_new_markets_def by (rule relink_names)
  also have "\<dots> = map ds_name (remove_old_markets db) @ map ds_name n1 @ map ds_name n2
      @ map ds_name n3"
    unfolding n3(1) n2(1) n1(1) by simp
  finally show ?thesis unfolding n1(2) n2(2) n3(2) .
qed

lemma example_remove_old: "remove_old_markets (old_market_DE # example_db) = example_db"
  by (simp add: remove_old_markets_def list_to_remove_def old_market_DE_def example_db_def
        coal_DE_def coal_FR_def pv_DE_def plant_def)

lemma new_dataset_example:
  "new_dataset example_env (example_db @ xs) tier r excs =
   new_dataset example_env example_db tier r excs"
  by (simp add: new_dataset_def example_db_def example_env_def)

lemma example_market_names:
  "ds_name example_high_market = ''market group for electricity, high voltage, SSP2, 2030''"
  "ds_name example_medium_market = ''market group for electricity, medium voltage, SSP2, 2030''"
  "ds_name example_low_market = ''market group for electricity, low voltage, SSP2, 2030''"
  by (simp_all add: example_high_market_def example_medium_market_def example_low_market_def
        new_dataset_def market_name_def example_env_def)

lemma suppliers_at_append:
  "suppliers_at (db @ xs) locs techs = suppliers_at db locs techs @ suppliers_at xs locs techs"
  by (simp add: suppliers_at_def)

lemma example_create_medium_after:
  "create_new_markets_medium_voltage example_env (example_db @ [example_high_market]) =
     Inr (example_db @ [example_high_market, example_medium_market])"
  by (simp add: create_new_markets_medium_voltage_def example_shares
        medium_voltage_dataset_def example_medium_market_def new_dataset_example)
     (simp add: example_db_def)

lemma example_pv_suppliers_after:
  "resolve_suppliers (example_db @ [example_high_market, example_medium_market])
     (LocList [''DE'', ''FR'']) [''electricity production, photovoltaic''] = Inr [pv_DE]"
proof -
  have "suppliers_at [example_high_market, example_medium_market] locs
      [''electricity production, photovoltaic''] = []" for locs
    by (simp add: suppliers_at_def example_market_names)
  moreover have "suppliers_at example_db [''DE'', ''FR'']
      [''electricity production, photovoltaic''] = [pv_DE]"
    by (simp add: suppliers_at_def example_db_def coal_DE_def coal_FR_def pv_DE_def plant_def)
  ultimately show ?thesis
    by (simp add: resolve_suppliers_cascade suppliers_at_append)
qed

lemma example_pv_exchanges_after:
  "technology_exchanges example_env (example_db @ [example_high_market, example_medium_market])
     (LocList [''DE'', ''FR'']) ''EUR'' ''Solar PV'' =
     Inr [supplier_exchange pv_DE (Fin (4 / 10))]"
proof -
  have l: "rev_electricity_market_labels example_env ''Solar PV'' = Some ''Solar PV''"
      "powerplant_map example_env ''Solar PV'' = Some [''electricity production, photovoltaic'']"
      "electricity_markets example_env ''Solar PV'' ''EUR'' = Fin (4 / 10)"
    by (simp_all add: example_env_def)
  have p: "get_pop_weighted_share example_env pv_DE [pv_DE] = Inr 1"
    by (simp_all add: get_pop_weighted_share_def locs_population_def pop_of_def
          example_env_def pv_DE_def plant_def)
  show ?thesis
    by (simp add: technology_exchanges_def l example_pv_suppliers_after p)
qed

lemma example_create_low_after:
  "create_new_markets_low_voltage example_env
     (example_db @ [example_high_market, example_medium_market]) =
     Inr (example_db @ [example_high_market, example_medium_market, example_low_market])"
proof -
  have "low_voltage_dataset example_env
      (example_db @ [example_high_market, example_medium_market]) ''EUR'' =
      Inr example_low_market"
    unfolding example_low_market_def
    by (simp add: low_voltage_dataset_def example_gen_tech example_locs example_shares
        example_pv_exchanges_after fsub_def new_dataset_example)
  then show ?thesis
    by (simp add: create_new_markets_low_voltage_def example_shares)
qed

lemma example_relink_after:
  "relink_activities_to_new_markets example_env
     (example_db @ [example_high_market, example_medium_market, example_low_market]) =
   Inr (example_db @ [example_high_market, example_medium_market, example_low_market])"
proof -
  have m: "relink_dataset example_env example_high_market = Inr example_high_market"
      "relink_dataset example_env example_medium_market = Inr example_medium_market"
      "relink_dataset example_env example_low_market = Inr example_low_market"
    by (simp_all add: relink_dataset_def example_market_names)
  have c: "relink_dataset example_env coal_DE = Inr coal_DE"
    by (rule relink_dataset_settled)
       (simp add: coal_DE_exchanges coal_output_def hard_coal_input_def flow_exchange_def
          so2_def)
  have e: "relink_dataset example_env coal_FR = Inr coal_FR"
      "relink_dataset example_env pv_DE = Inr pv_DE"
    by (rule relink_dataset_settled, simp add: coal_FR_def pv_DE_def plant_def)+
  show ?thesis
    unfolding relink_activities_to_new_markets_def
    by (rule map_err_id) (simp add: example_db_def m c e)
qed

lemma example_update:
  "update_electricity_markets example_env (old_market_DE # example_db) =
     Inr (example_db @ [example_high_market, example_medium_market, example_low_market])"
  by (simp add: update_electricity_markets_def example_remove_old example_create_high
        example_create_medium_after example_create_low_after example_relink_after)

text \<open>
  C10. \<open>update_electricity_markets\<close> first removes every record whose name contains one
  of the eight electricity-market substrings: no such record remains in the filtered
  database and every other record is kept. The markets are composed on that database
  and on nothing else: the run on a database equals the run on its filtered database,
  the high voltage builder, the first to run, receives the filtered database, and the
  names of the records of the result are those of the filtered database followed by
  the names of the new high, medium and low voltage markets, one of each per region.
\<close>

theorem old_markets_removed:
  "list_to_remove =
     [''market group for electricity, high voltage'',
      ''market group for electricity, medium voltage'',
      ''market group for electricity, low voltage'',
      ''market for electricity, high voltage'',
      ''market for electricity, medium voltage'',
      ''market for electricity, low voltage'',
      ''electricity, high voltage, import'',
      ''electricity, high voltage, production mix'']
   \<and> (\<forall>ds \<in> set (remove_old_markets db).
         \<forall>stop \<in> set list_to_remove. \<not> contains_str stop (ds_name ds))
   \<and> (\<forall>ds \<in> set db. (\<forall>stop \<in> set list_to_remove. \<not> contains_str stop (ds_name ds))
         \<longrightarrow> ds \<in> set (remove_old_markets db))
   \<and> update_electricity_markets e db = update_electricity_markets e (remove_old_markets db)
   \<and> (\<forall>out. update_electricity_markets e db = Inr out \<longrightarrow>
         (\<exists>db1 db2 db3.
            create_new_markets_high_voltage e (remove_old_markets db) = Inr db1
            \<and> create_new_markets_medium_voltage e db1 = Inr db2
            \<and> create_new_markets_low_voltage e db2 = Inr db3
            \<and> relink_activities_to_new_markets e db3 = Inr out)
         \<and> map ds_name out =
             map ds_name (remove_old_markets db)
             @ replicate (length (regions e)) (market_name e ''high'')
             @ replicate (length (regions e)) (market_name e ''medium'')
             @ replicate (length (regions e)) (market_name e ''low''))"
proof (intro conjI allI impI)
  show "list_to_remove =
     [''market group for electricity, high voltage'',
      ''market group for electricity, medium voltage'',
      ''market group for electricity, low voltage'',
      ''market for electricity, high voltage'',
      ''market for electricity, medium voltage'',
      ''market for electricity, low voltage'',
      ''electricity, high voltage, import'',
      ''electricity, high voltage, production mix'']"
    by (simp add: list_to_remove_def)
  show "\<forall>ds \<in> set (remove_old_markets db).
         \<forall>stop \<in> set list_to_remove. \<not> contains_str stop (ds_name ds)"
    by (simp add: remove_old_markets_def)
  show "\<forall>ds \<in> set db. (\<forall>stop \<in> set list_to_remove. \<not> contains_str stop (ds_name ds))
         \<longrightarrow> ds \<in> set (remove_old_markets db)"
    by (simp add: remove_old_markets_def)
  show "update_electricity_markets e db = update_electricity_markets e (remove_old_markets db)"
    by (simp add: update_electricity_markets_def remove_old_markets_idem)
next
  fix out
  assume "update_electricity_markets e db = Inr out"
  then show "\<exists>db1 db2 db3.
            create_new_markets_high_voltage e (remove_old_markets db) = Inr db1
            \<and> create_new_markets_medium_voltage e db1 = Inr db2
            \<and> create_new_markets_low_voltage e db2 = Inr db3
            \<and> relink_activities_to_new_markets e db3 = Inr out"
    by (rule update_electricity_markets_chain)
next
  fix out
  assume "update_electricity_markets e db = Inr out"
  then show "map ds_name out =
             map ds_name (remove_old_markets db)
             @ replicate (length (regions e)) (market_name e ''high'')
             @ replicate (length (regions e)) (market_name e ''medium'')
             @ replicate (length (regions e)) (market_name e ''low'')"
    by (rule update_electricity_markets_names)
qed

theorem old_markets_removed_witness:
  "update_electricity_markets example_env (old_market_DE # example_db) =
     Inr (example_db @ [example_high_market, example_medium_market, example_low_market])
   \<and> contains_str ''market for electricity, high voltage'' (ds_name old_market_DE)
   \<and> remove_old_markets (old_market_DE # example_db) = example_db
   \<and> coal_DE \<in> set (remove_old_markets (old_market_DE # example_db))
   \<and> \<not> contains_str ''market for electricity, high voltage'' (ds_name coal_DE)
   \<and> create_new_markets_high_voltage example_env example_db =
       Inr (example_db @ [example_high_market])
   \<and> map ds_name
        (example_db @ [example_high_market, example_medium_market, example_low_market]) =
       map ds_name example_db
       @ [market_name example_env ''high'', market_name example_env ''medium'',
          market_name example_env ''low'']"
proof -
  let ?out = "example_db @ [example_high_market, example_medium_market, example_low_market]"
  note t = old_markets_removed [where db = "old_market_DE # example_db" and e = example_env]
  have o: "contains_str ''market for electricity, high voltage'' (ds_name old_market_DE)"
    by (simp add: old_market_DE_def plant_def)
  have m: "''market for electricity, high voltage'' \<in> set list_to_remove"
    by (simp add: list_to_remove_def)
  have c: "coal_DE \<in> set (remove_old_markets (old_market_DE # example_db))"
    unfolding example_remove_old by (simp add: example_db_def)
  from t c m have n: "\<not> contains_str ''market for electricity, high voltage'' (ds_name coal_DE)"
    by blast
  from t example_update have "map ds_name ?out =
      map ds_name (remove_old_markets (old_market_DE # example_db))
      @ replicate (length (regions example_env)) (market_name example_env ''high'')
      @ replicate (length (regions example_env)) (market_name example_env ''medium'')
      @ replicate (length (regions example_env)) (market_name example_env ''low'')"
    by blast
  then have names: "map ds_name ?out = map ds_name example_db
       @ [market_name example_env ''high'', market_name example_env ''medium'',
          market_name example_env ''low'']"
    by (simp add: example_remove_old example_shares)
  from example_update o example_remove_old c n example_create_high names
  show ?thesis by (intro conjI)
qed

end
